theory Spec2Isabelle
  imports Complex_Main
begin

section \<open>Values and errors\<close>

text \<open>
  The notebook \<^verbatim>\<open>FFT_estimation.ipynb\<close> defines one class, \<^verbatim>\<open>Estimator\<close>.
  Its numbers are IEEE doubles. They are modelled as reals extended by the three special
  values a double can take, so that \<open>NaN\<close> and the infinities are values of the model,
  and each operation is modelled by its exact result: rounding is not modelled, and
  neither is the overflow of a numpy operation, which gives an infinity. The overflow of
  a Python power raises an exception, and is modelled. A double computation and its
  model agree on which expression is evaluated; they differ where a property holds by
  the algebra of exact arithmetic only, as the independence of a sum from the order of
  its terms does. No such property is stated below.
\<close>

datatype npfloat = Fin real | PInf | NInf | NaN

text \<open>The Python exceptions that the class and the library calls it makes can raise.\<close>

datatype py_error =
  ZeroDivisionError | OverflowError | IndexError | TypeError | KeyError | ValueError

text \<open>An exception ends the computation: the rest runs only on a result.\<close>

definition bind_err :: "py_error + 'a \<Rightarrow> ('a \<Rightarrow> py_error + 'b) \<Rightarrow> py_error + 'b" where
  "bind_err m f = (case m of Inl e \<Rightarrow> Inl e | Inr v \<Rightarrow> f v)"

text \<open>Division of two Python floats: a zero divisor raises.\<close>

definition py_div :: "real \<Rightarrow> real \<Rightarrow> py_error + real" where
  "py_div a c = (if c = 0 then Inl ZeroDivisionError else Inr (a / c))"

text \<open>\<^verbatim>\<open>a[i] = v\<close> on a one-dimensional array; a negative index counts from the end.\<close>

definition setitem :: "real list \<Rightarrow> int \<Rightarrow> real \<Rightarrow> py_error + real list" where
  "setitem a i v =
     (let n = int (length a); k = (if i < 0 then n + i else i)
      in if 0 \<le> k \<and> k < n then Inr (a[nat k := v]) else Inl IndexError)"

text \<open>\<^verbatim>\<open>np.arange(0, n, dtype = np.float64)\<close>: empty when \<open>n \<le> 0\<close>.\<close>

definition np_arange :: "int \<Rightarrow> real list" where
  "np_arange n = map real [0..<nat n]"

section \<open>Arithmetic on doubles\<close>

text \<open>
  The special values follow IEEE 754, as numpy does: \<open>NaN\<close> is absorbing, the
  difference of two like infinities and the product of zero and an infinity are \<open>NaN\<close>,
  and every comparison with \<open>NaN\<close> is false.
\<close>

fun np_neg :: "npfloat \<Rightarrow> npfloat" where
  "np_neg (Fin r) = Fin (- r)"
| "np_neg PInf = NInf"
| "np_neg NInf = PInf"
| "np_neg NaN = NaN"

fun np_add :: "npfloat \<Rightarrow> npfloat \<Rightarrow> npfloat" where
  "np_add NaN _ = NaN"
| "np_add _ NaN = NaN"
| "np_add (Fin r) (Fin s) = Fin (r + s)"
| "np_add PInf NInf = NaN"
| "np_add NInf PInf = NaN"
| "np_add PInf _ = PInf"
| "np_add _ PInf = PInf"
| "np_add NInf _ = NInf"
| "np_add _ NInf = NInf"

definition np_sub :: "npfloat \<Rightarrow> npfloat \<Rightarrow> npfloat" where
  "np_sub a c = np_add a (np_neg c)"

text \<open>The sign of a double that is not \<open>NaN\<close>: \<open>-1\<close>, \<open>0\<close> or \<open>1\<close>.\<close>

fun np_sign :: "npfloat \<Rightarrow> int" where
  "np_sign (Fin r) = (if r < 0 then - 1 else if r = 0 then 0 else 1)"
| "np_sign PInf = 1"
| "np_sign NInf = - 1"
| "np_sign NaN = 0"

fun np_mul :: "npfloat \<Rightarrow> npfloat \<Rightarrow> npfloat" where
  "np_mul NaN _ = NaN"
| "np_mul _ NaN = NaN"
| "np_mul (Fin r) (Fin s) = Fin (r * s)"
| "np_mul a c =
     (let k = np_sign a * np_sign c
      in if k = 0 then NaN else if 0 < k then PInf else NInf)"

text \<open>A double divided by a finite double; a zero divisor gives an infinity or \<open>NaN\<close>.\<close>

fun np_div :: "npfloat \<Rightarrow> real \<Rightarrow> npfloat" where
  "np_div NaN s = NaN"
| "np_div (Fin r) s =
     (if s = 0 then (if r = 0 then NaN else if 0 < r then PInf else NInf) else Fin (r / s))"
| "np_div PInf s = (if 0 \<le> s then PInf else NInf)"
| "np_div NInf s = (if 0 \<le> s then NInf else PInf)"

text \<open>\<^verbatim>\<open>a <= c\<close> on doubles.\<close>

fun np_le :: "npfloat \<Rightarrow> npfloat \<Rightarrow> bool" where
  "np_le NaN _ = False"
| "np_le _ NaN = False"
| "np_le NInf _ = True"
| "np_le _ PInf = True"
| "np_le (Fin r) (Fin s) = (r \<le> s)"
| "np_le _ _ = False"

text \<open>\<^verbatim>\<open>np.isfinite\<close>.\<close>

fun isfinite :: "npfloat \<Rightarrow> bool" where
  "isfinite (Fin r) = True"
| "isfinite _ = False"

text \<open>\<^verbatim>\<open>np.log\<close> on a real double.\<close>

fun np_log :: "npfloat \<Rightarrow> npfloat" where
  "np_log (Fin r) = (if 0 < r then Fin (ln r) else if r = 0 then NInf else NaN)"
| "np_log PInf = PInf"
| "np_log NInf = NaN"
| "np_log NaN = NaN"

text \<open>
  \<^verbatim>\<open>np.clip(a, a_min = m, a_max = None)\<close> is \<^verbatim>\<open>np.maximum(a, m)\<close> elementwise, and
  \<^verbatim>\<open>np.maximum\<close> returns \<open>NaN\<close> when an argument is \<open>NaN\<close>.
\<close>

fun np_maximum :: "npfloat \<Rightarrow> npfloat \<Rightarrow> npfloat" where
  "np_maximum NaN _ = NaN"
| "np_maximum _ NaN = NaN"
| "np_maximum a c = (if np_le a c then c else a)"

definition np_clip :: "npfloat list \<Rightarrow> real \<Rightarrow> npfloat list" where
  "np_clip a a_min = map (\<lambda>v. np_maximum v (Fin a_min)) a"

text \<open>\<^verbatim>\<open>np.sum\<close> of a one-dimensional array; the sum of no element is \<open>0\<close>.\<close>

definition np_sum :: "npfloat list \<Rightarrow> npfloat" where
  "np_sum a = foldl np_add (Fin 0) a"

text \<open>
  A complex double. \<open>CNaN\<close> stands for the complex doubles with a \<open>NaN\<close> part, such as
  \<^verbatim>\<open>nan+nanj\<close>; the operations are those of the complex numbers, and \<open>CNaN\<close> is
  absorbing.
\<close>

datatype npcomplex = Cx complex | CNaN

fun cmul :: "npcomplex \<Rightarrow> npcomplex \<Rightarrow> npcomplex" where
  "cmul (Cx a) (Cx c) = Cx (a * c)"
| "cmul _ _ = CNaN"

fun cadd :: "npcomplex \<Rightarrow> npcomplex \<Rightarrow> npcomplex" where
  "cadd (Cx a) (Cx c) = Cx (a + c)"
| "cadd _ _ = CNaN"

fun csub :: "npcomplex \<Rightarrow> npcomplex \<Rightarrow> npcomplex" where
  "csub (Cx a) (Cx c) = Cx (a - c)"
| "csub _ _ = CNaN"

fun cexp :: "npcomplex \<Rightarrow> npcomplex" where
  "cexp (Cx a) = Cx (exp a)"
| "cexp CNaN = CNaN"

fun np_real :: "npcomplex \<Rightarrow> npfloat" where
  "np_real (Cx a) = Fin (Re a)"
| "np_real CNaN = NaN"

text \<open>
  The principal logarithm and the principal power of a complex number, as \<^verbatim>\<open>np.log\<close>
  and \<^verbatim>\<open>**\<close> compute them. The numpy logarithm of zero is not finite, and a
  negative power of zero in a numpy array is \<^verbatim>\<open>inf+nanj\<close>; both are \<open>CNaN\<close> here.
\<close>

definition clog :: "complex \<Rightarrow> complex" where
  "clog z = Complex (ln (cmod z)) (Arg z)"

definition cpow :: "complex \<Rightarrow> real \<Rightarrow> complex" where
  "cpow z a = (if z = 0 then (if a = 0 then 1 else 0) else exp (of_real a * clog z))"

fun np_clog :: "npcomplex \<Rightarrow> npcomplex" where
  "np_clog (Cx a) = (if a = 0 then CNaN else Cx (clog a))"
| "np_clog CNaN = CNaN"

definition np_cpow :: "complex \<Rightarrow> real \<Rightarrow> npcomplex" where
  "np_cpow z a = (if z = 0 \<and> a < 0 then CNaN else Cx (cpow z a))"

text \<open>
  The same power of Python numbers raises instead. \<open>py_cpow\<close> is \<^verbatim>\<open>z ** a\<close> for a
  Python complex \<open>z\<close> and a Python float \<open>a\<close>, and \<open>py_fpow\<close> is \<^verbatim>\<open>x ** y\<close> for two
  Python floats, which is the principal power, a complex number when \<open>x\<close> is negative
  and \<open>y\<close> is not an integer. Zero to a negative power raises \<^verbatim>\<open>ZeroDivisionError\<close>,
  and a result too large for a double raises \<^verbatim>\<open>OverflowError\<close>: the exact result is
  compared with the largest double.
\<close>

definition max_double :: real where
  "max_double = (2 - 1 / 2 ^ 52) * 2 ^ 1023"

definition py_cpow :: "complex \<Rightarrow> real \<Rightarrow> py_error + complex" where
  "py_cpow z a =
     (if z = 0 \<and> a < 0 then Inl ZeroDivisionError
      else if max_double < cmod (cpow z a) then Inl OverflowError
      else Inr (cpow z a))"

definition py_fpow :: "real \<Rightarrow> real \<Rightarrow> py_error + complex" where
  "py_fpow x y = py_cpow (of_real x) y"

text \<open>
  \<^verbatim>\<open>scipy.fft.fft\<close> of a one-dimensional array: the discrete Fourier transform
  \<open>y[k] = \<Sum>n. a[n] * exp (- 2 * pi * \<i> * k * n / N)\<close>; an empty array is refused.
\<close>

definition fft :: "npcomplex list \<Rightarrow> py_error + npcomplex list" where
  "fft a =
     (let n = length a
      in if n = 0 then Inl ValueError
         else Inr (map (\<lambda>k. foldl cadd (Cx 0)
                 (map (\<lambda>m. cmul (a ! m)
                    (Cx (exp (- 2 * complex_of_real pi * \<i> * of_nat k * of_nat m / of_nat n))))
                  [0..<n]))
               [0..<n]))"

section \<open>The class and its instances\<close>

text \<open>
  \<^verbatim>\<open>N\<close>, \<^verbatim>\<open>eta\<close> and \<^verbatim>\<open>dt\<close> are class attributes. An instance has its own
  value only when the constructor got one; reading \<^verbatim>\<open>self.N\<close> looks in the instance
  first and in the class second.
\<close>

record class_attrs =
  cls_N :: int
  cls_eta :: real
  cls_dt :: real

definition Estimator_class :: class_attrs where
  "Estimator_class = \<lparr>cls_N = 2 ^ 16, cls_eta = 0.5, cls_dt = 1 / 252\<rparr>"

record fft_params =
  self_b :: real
  self_lbda :: real
  self_u :: "real list"
  self_x :: "real list"
  self_w :: "real list"

record estimator =
  data_returns :: "npfloat list"
  inst_N :: "int option"
  inst_eta :: "real option"
  inst_dt :: "real option"
  grid :: fft_params

definition get_N :: "class_attrs \<Rightarrow> int option \<Rightarrow> int" where
  "get_N cls a = (case a of Some n \<Rightarrow> n | None \<Rightarrow> cls_N cls)"

definition get_eta :: "class_attrs \<Rightarrow> real option \<Rightarrow> real" where
  "get_eta cls a = (case a of Some e \<Rightarrow> e | None \<Rightarrow> cls_eta cls)"

definition get_dt :: "class_attrs \<Rightarrow> real option \<Rightarrow> real" where
  "get_dt cls a = (case a of Some d \<Rightarrow> d | None \<Rightarrow> cls_dt cls)"

section \<open>The integration grid\<close>

text \<open>
  \<^verbatim>\<open>make_fft_params\<close> reads \<^verbatim>\<open>self.eta\<close> and \<^verbatim>\<open>self.N\<close> and assigns
  \<^verbatim>\<open>b, lbda, u, x, w\<close>. The statements run in the source's order, so the two
  divisions come before the two index assignments.
\<close>

definition make_fft_params :: "real \<Rightarrow> int \<Rightarrow> py_error + fft_params" where
  "make_fft_params eta n =
     bind_err (py_div pi eta) (\<lambda>b.
     bind_err (py_div (2 * pi) (eta * real_of_int n)) (\<lambda>lbda.
       let j = np_arange n;
           u = map (\<lambda>k. k * eta) j;
           x = map (\<lambda>k. - b + k * lbda) j;
           w = map (\<lambda>k. 1) j
       in bind_err (setitem w 0 0.5) (\<lambda>w1.
          bind_err (setitem w1 (- 1) 0.5) (\<lambda>w2.
            Inr \<lparr>self_b = b, self_lbda = lbda, self_u = u, self_x = x, self_w = w2\<rparr>))))"

text \<open>
  \<^verbatim>\<open>pd.Series(data_returns).dropna()\<close>: a missing entry (\<^verbatim>\<open>None\<close>) becomes
  \<open>NaN\<close> in the series, and \<^verbatim>\<open>dropna\<close> removes the \<open>NaN\<close> entries; the infinities
  are not missing values for pandas.
\<close>

definition pd_Series :: "npfloat option list \<Rightarrow> npfloat list" where
  "pd_Series xs = map (\<lambda>v. case v of None \<Rightarrow> NaN | Some f \<Rightarrow> f) xs"

definition dropna :: "npfloat list \<Rightarrow> npfloat list" where
  "dropna xs = filter (\<lambda>v. v \<noteq> NaN) xs"

text \<open>The constructor. No argument is validated.\<close>

definition init :: "class_attrs \<Rightarrow> npfloat option list \<Rightarrow> int option \<Rightarrow> real option \<Rightarrow>
    real option \<Rightarrow> py_error + estimator" where
  "init cls data n eta dt =
     bind_err (make_fft_params (get_eta cls eta) (get_N cls n)) (\<lambda>g.
       Inr \<lparr>data_returns = dropna (pd_Series data),
            inst_N = n, inst_eta = eta, inst_dt = dt, grid = g\<rparr>)"

section \<open>Interpolation\<close>

text \<open>
  \<^verbatim>\<open>np.interp(x, xp, fp)\<close>, as numpy computes it. For each query point numpy looks for
  the index \<open>j\<close> of the interval of \<open>xp\<close> that holds it, with
  \<^verbatim>\<open>binary_search_with_guess\<close>: a key above the last sample point gives the length,
  a key below the first gives \<open>-1\<close>; arrays of at most four sample points are searched
  from the left; on longer arrays the three intervals around the guess are tried first,
  and then the bisection runs, on a range of eight indices next to the guess when the
  key lies there. The guess is the index found for the query point before. On increasing sample
  points the index is the one with \<open>xp[j] \<le> x < xp[j + 1]\<close>; numpy does not check that
  they increase.
\<close>

function bisect :: "real list \<Rightarrow> real \<Rightarrow> nat \<Rightarrow> nat \<Rightarrow> nat" where
  "bisect arr key imin imax =
     (if imin < imax
      then (if arr ! (imin + (imax - imin) div 2) \<le> key
            then bisect arr key (imin + (imax - imin) div 2 + 1) imax
            else bisect arr key imin (imin + (imax - imin) div 2))
      else imin)"
  by pat_completeness auto
termination
  by (relation "measure (\<lambda>(arr, key, imin, imax). imax - imin)") auto

definition binary_search_with_guess :: "real \<Rightarrow> real list \<Rightarrow> int \<Rightarrow> int" where
  "binary_search_with_guess key arr guess =
     (let len = length arr
      in if arr ! (len - 1) < key then int len
         else if key < arr ! 0 then - 1
         else if len \<le> 4 then int (length (takeWhile (\<lambda>v. v \<le> key) (tl arr)))
         else
           let g = nat (max 1 (min guess (int len - 3)))
           in if key < arr ! g then
                (if key < arr ! (g - 1) then
                   int (bisect arr key (if 8 < g \<and> arr ! (g - 8) \<le> key then g - 8 else 0)
                          (g - 1)) - 1
                 else int g - 1)
              else if key < arr ! (g + 1) then int g
              else if key < arr ! (g + 2) then int g + 1
              else int (bisect arr key (g + 2)
                          (if g < len - 8 - 1 \<and> key < arr ! (g + 8) then g + 8 else len)) - 1)"

text \<open>The search for a query point that is not \<open>NaN\<close>; the infinities compare as they do.\<close>

definition search :: "npfloat \<Rightarrow> real list \<Rightarrow> int \<Rightarrow> int" where
  "search q xp guess =
     (case q of
        Fin r \<Rightarrow> binary_search_with_guess r xp guess
      | PInf \<Rightarrow> int (length xp)
      | NInf \<Rightarrow> - 1
      | NaN \<Rightarrow> guess)"

text \<open>
  Between two sample points the value is \<open>slope * (x - xp[j]) + fp[j]\<close>. When that is
  \<open>NaN\<close> numpy tries the same from the right end of the interval, and then the common
  value of the two ends.
\<close>

definition interp_between :: "real \<Rightarrow> real \<Rightarrow> real \<Rightarrow> npfloat \<Rightarrow> npfloat \<Rightarrow> npfloat" where
  "interp_between r x0 x1 f0 f1 =
     (let slope = np_div (np_sub f1 f0) (x1 - x0);
          res = np_add (np_mul slope (Fin (r - x0))) f0
      in if res \<noteq> NaN then res
         else let res2 = np_add (np_mul slope (Fin (r - x1))) f1
              in if res2 = NaN \<and> f0 = f1 \<and> f0 \<noteq> NaN then f0 else res2)"

text \<open>The value for a query point with the index \<open>j\<close> found for it.\<close>

definition interp_at :: "real list \<Rightarrow> npfloat list \<Rightarrow> npfloat \<Rightarrow> int \<Rightarrow> npfloat" where
  "interp_at xp fp q j =
     (let n = length xp
      in if j = - 1 then fp ! 0
         else if j = int n then fp ! (n - 1)
         else if j = int n - 1 then fp ! nat j
         else case q of
                Fin r \<Rightarrow>
                  if xp ! nat j = r then fp ! nat j
                  else interp_between r (xp ! nat j) (xp ! (nat j + 1))
                         (fp ! nat j) (fp ! (nat j + 1))
              | _ \<Rightarrow> NaN)"

text \<open>The loop over the query points: a \<open>NaN\<close> query point is returned as it is.\<close>

fun interp_loop :: "real list \<Rightarrow> npfloat list \<Rightarrow> int \<Rightarrow> npfloat list \<Rightarrow> npfloat list" where
  "interp_loop xp fp j [] = []"
| "interp_loop xp fp j (q # qs) =
     (if q = NaN then NaN # interp_loop xp fp j qs
      else interp_at xp fp q (search q xp j) # interp_loop xp fp (search q xp j) qs)"

text \<open>
  Empty sample points and arrays of different lengths are refused. For one sample point
  every query point, \<open>NaN\<close> included, gets the one value.
\<close>

definition np_interp :: "npfloat list \<Rightarrow> real list \<Rightarrow> npfloat list \<Rightarrow> py_error + npfloat list" where
  "np_interp qs xp fp =
     (if xp = [] \<or> length fp \<noteq> length xp then Inl ValueError
      else if length xp = 1 then Inr (map (\<lambda>q. fp ! 0) qs)
      else Inr (interp_loop xp fp 0 qs))"

section \<open>Models\<close>

text \<open>
  \<^verbatim>\<open>str.lower\<close> on ASCII text: the letters \<open>A\<close> to \<open>Z\<close> have the codes 65 to 90,
  and the lower-case letter is 32 higher, which sets the bit of weight 32.
\<close>

definition lower_char :: "char \<Rightarrow> char" where
  "lower_char c =
     (if 65 \<le> (of_char c :: nat) \<and> (of_char c :: nat) \<le> 90
      then Char (digit0 c) (digit1 c) (digit2 c) (digit3 c) (digit4 c) True (digit6 c) (digit7 c)
      else c)"

definition lower :: "string \<Rightarrow> string" where
  "lower s = map lower_char s"

text \<open>
  \<^verbatim>\<open>params.valuesdict()\<close> is a dictionary from names to values; reading a name that is
  not there raises \<^verbatim>\<open>KeyError\<close>.
\<close>

type_synonym paramsdict = "(string \<times> real) list"

definition getitem :: "paramsdict \<Rightarrow> string \<Rightarrow> py_error + real" where
  "getitem p k = (case map_of p k of None \<Rightarrow> Inl KeyError | Some v \<Rightarrow> Inr v)"

text \<open>
  The gamma function and the modified Bessel function of the second kind come from
  \<^verbatim>\<open>scipy.special\<close>. They are parameters of the model: real functions, read where
  scipy returns a finite value. No property below depends on their values.
\<close>

record speclib =
  gamma :: "real \<Rightarrow> real"
  kv :: "real \<Rightarrow> real \<Rightarrow> real"

text \<open>
  The four characteristic functions of \<^verbatim>\<open>get_cfXh\<close>, each at one complex frequency
  \<open>u\<close>. \<^verbatim>\<open>opt_fun\<close> calls them twice: with the Python complex \<^verbatim>\<open>-1j\<close>, and with
  the numpy array \<^verbatim>\<open>self.u\<close>, on which they work elementwise. The two calls differ in
  the power of a base that depends on \<open>u\<close>: Python's power raises on zero to a negative
  power and on overflow, numpy's does not. A power of two Python floats, such as
  \<^verbatim>\<open>params['sigma']**2\<close>, is Python's power in both calls. \<open>dt\<close> is \<^verbatim>\<open>self.dt\<close>, read
  when the function is called; the values of the parameters are Python floats.
\<close>

datatype kind = PyScalar | NpArray

fun pow_u :: "kind \<Rightarrow> complex \<Rightarrow> real \<Rightarrow> py_error + npcomplex" where
  "pow_u PyScalar z a = bind_err (py_cpow z a) (\<lambda>c. Inr (Cx c))"
| "pow_u NpArray z a = Inr (np_cpow z a)"

definition cfXh_gbm :: "real \<Rightarrow> paramsdict \<Rightarrow> kind \<Rightarrow> complex \<Rightarrow> py_error + npcomplex" where
  "cfXh_gbm dt p k u =
     bind_err (getitem p ''sigma'') (\<lambda>sigma.
     bind_err (py_fpow sigma 2) (\<lambda>s2.
       Inr (cexp (Cx (of_real (- 0.5) * s2 * of_real dt * u ^ 2)))))"

definition cfXh_vg :: "real \<Rightarrow> paramsdict \<Rightarrow> kind \<Rightarrow> complex \<Rightarrow> py_error + npcomplex" where
  "cfXh_vg dt p k u =
     bind_err (getitem p ''theta'') (\<lambda>theta.
     bind_err (getitem p ''nu'') (\<lambda>nu.
     bind_err (getitem p ''sigma'') (\<lambda>sigma.
     bind_err (py_fpow sigma 2) (\<lambda>s2.
     bind_err (py_div (- dt) nu) (\<lambda>a.
       pow_u k (1 - \<i> * u * of_real theta * of_real nu
                  + of_real 0.5 * s2 * u ^ 2 * of_real nu) a)))))"

text \<open>
  In the cgmy function the powers are evaluated from left to right, each after the
  parameters that it reads: \<^verbatim>\<open>G\<close> is read after the two powers of \<^verbatim>\<open>M\<close>.
\<close>

definition cfXh_cgmy :: "speclib \<Rightarrow> real \<Rightarrow> paramsdict \<Rightarrow> kind \<Rightarrow> complex \<Rightarrow>
    py_error + npcomplex" where
  "cfXh_cgmy lib dt p k u =
     bind_err (getitem p ''C'') (\<lambda>C.
     bind_err (getitem p ''Y'') (\<lambda>Y.
     bind_err (getitem p ''M'') (\<lambda>M.
     bind_err (pow_u k (of_real M - \<i> * u) Y) (\<lambda>p1.
     bind_err (py_fpow M Y) (\<lambda>p2.
     bind_err (getitem p ''G'') (\<lambda>G.
     bind_err (pow_u k (of_real G + \<i> * u) Y) (\<lambda>p3.
     bind_err (py_fpow G Y) (\<lambda>p4.
       Inr (cexp (cmul (Cx (of_real (C * dt * gamma lib (- Y))))
              (csub (cadd (csub p1 (Cx p2)) p3) (Cx p4))))))))))))"

text \<open>
  In the t function \<^verbatim>\<open>2.0**(params['nu']/2.0-1.0)\<close> is a power of Python floats; the
  other operations are numpy operations, \<^verbatim>\<open>modu(params, u) ** (params['nu']/2)\<close>
  included, and raise nothing. \<^verbatim>\<open>np.sqrt\<close> of a negative number is \<open>NaN\<close>, and at
  \<open>modu = 0\<close> the Bessel function is infinite and is multiplied by zero: the source says
  of this case that the characteristic function evaluated at \<open>u = 0\<close> gives \<open>NaN\<close>.
\<close>

definition modu :: "real \<Rightarrow> real \<Rightarrow> real \<Rightarrow> complex \<Rightarrow> real" where
  "modu dt sigma nu u = cmod (of_real (sigma * sqrt (dt * (nu - 2.0))) * u)"

definition cfXh_t :: "speclib \<Rightarrow> real \<Rightarrow> paramsdict \<Rightarrow> kind \<Rightarrow> complex \<Rightarrow>
    py_error + npcomplex" where
  "cfXh_t lib dt p k u =
     bind_err (getitem p ''nu'') (\<lambda>nu.
     bind_err (getitem p ''sigma'') (\<lambda>sigma.
     bind_err (py_fpow 2.0 (nu / 2.0 - 1.0)) (\<lambda>p2.
       if dt * (nu - 2.0) < 0 \<or> modu dt sigma nu u = 0 then Inr CNaN
       else Inr (Cx (of_real
                   (kv lib (nu / 2.0) (modu dt sigma nu u) * modu dt sigma nu u powr (nu / 2))
                 / (of_real (gamma lib (nu / 2.0)) * p2))))))"

text \<open>
  \<^verbatim>\<open>get_cfXh\<close> returns one of four functions, or \<^verbatim>\<open>None\<close>. The returned
  function is represented by its name, and \<open>call_cfXh\<close> is its call.
\<close>

datatype cfXh = CF_gbm | CF_vg | CF_cgmy | CF_t

definition get_cfXh :: "string \<Rightarrow> cfXh option" where
  "get_cfXh model =
     (if lower model = ''gbm'' then Some CF_gbm
      else if lower model = ''vg'' then Some CF_vg
      else if lower model = ''cgmy'' then Some CF_cgmy
      else if lower model = ''t'' then Some CF_t
      else None)"

fun call_cfXh :: "speclib \<Rightarrow> real \<Rightarrow> cfXh \<Rightarrow> paramsdict \<Rightarrow> kind \<Rightarrow> complex \<Rightarrow>
    py_error + npcomplex" where
  "call_cfXh lib dt CF_gbm p k u = cfXh_gbm dt p k u"
| "call_cfXh lib dt CF_vg p k u = cfXh_vg dt p k u"
| "call_cfXh lib dt CF_cgmy p k u = cfXh_cgmy lib dt p k u"
| "call_cfXh lib dt CF_t p k u = cfXh_t lib dt p k u"

text \<open>
  One entry of an lmfit \<^verbatim>\<open>Parameters\<close> object, as \<^verbatim>\<open>add_many\<close> takes it:
  name, value, vary, min, max, expr, brute\_step.
\<close>

record parameter =
  par_name :: string
  par_value :: real
  par_vary :: bool
  par_min :: "real option"
  par_max :: "real option"
  par_expr :: "string option"
  par_brute_step :: "real option"

definition par :: "string \<Rightarrow> real \<Rightarrow> real option \<Rightarrow> real option \<Rightarrow> parameter" where
  "par nm v lo hi = \<lparr>par_name = nm, par_value = v, par_vary = True, par_min = lo,
     par_max = hi, par_expr = None, par_brute_step = None\<rparr>"

text \<open>Reading the value of a parameter gives the value brought inside its bounds.\<close>

definition getval :: "parameter \<Rightarrow> real" where
  "getval q =
     (let v = (case par_max q of None \<Rightarrow> par_value q | Some hi \<Rightarrow> min (par_value q) hi)
      in case par_min q of None \<Rightarrow> v | Some lo \<Rightarrow> max lo v)"

definition valuesdict :: "parameter list \<Rightarrow> paramsdict" where
  "valuesdict ps = map (\<lambda>q. (par_name q, getval q)) ps"

text \<open>
  \<^verbatim>\<open>get_init_estim_params\<close> returns the initial parameters and, for the t model,
  assigns \<^verbatim>\<open>self.u = np.clip(self.u, a_min = 0.001, a_max = None)\<close>. The result is the
  pair of the parameters and the instance afterwards.
\<close>

definition clip_u :: "real list \<Rightarrow> real list" where
  "clip_u us = map (\<lambda>v. max v 0.001) us"

definition get_init_estim_params :: "estimator \<Rightarrow> string \<Rightarrow> parameter list \<times> estimator" where
  "get_init_estim_params self model =
     (if lower model = ''gbm'' then
        ([par ''mu'' 0.01 None None,
          par ''sigma'' 0.10 (Some 0.00001) None], self)
      else if lower model = ''vg'' then
        ([par ''mu'' 0.01 None None,
          par ''sigma'' 0.10 (Some 0.00001) None,
          par ''theta'' 0.00 None None,
          par ''nu'' 0.01 (Some 0.00001) None], self)
      else if lower model = ''cgmy'' then
        ([par ''mu'' 0.01 None None,
          par ''C'' 0.01 (Some 0.00001) None,
          par ''G'' 20 (Some 0.00001) None,
          par ''M'' 20 (Some 0.00001) None,
          par ''Y'' 1.85 None (Some 2.0)], self)
      else if lower model = ''t'' then
        ([par ''mu'' 0.01 None None,
          par ''sigma'' 0.1 (Some 0.00001) None,
          par ''nu'' 100 (Some 2.00001) None],
         self\<lparr>grid := (grid self)\<lparr>self_u := clip_u (self_u (grid self))\<rparr>\<rparr>)
      else ([], self))"

section \<open>The objective\<close>

text \<open>An array operation raises what the first failing element raises.\<close>

fun sequence_err :: "(py_error + 'a) list \<Rightarrow> py_error + 'a list" where
  "sequence_err [] = Inr []"
| "sequence_err (m # ms) =
     bind_err m (\<lambda>v. bind_err (sequence_err ms) (\<lambda>vs. Inr (v # vs)))"

text \<open>
  The product of two one-dimensional arrays: elementwise when the lengths agree, a
  one-element array is broadcast, and other lengths are refused.
\<close>

definition mul_arrays :: "npcomplex list \<Rightarrow> npcomplex list \<Rightarrow> py_error + npcomplex list" where
  "mul_arrays a c =
     (if length a = length c then Inr (map2 cmul a c)
      else if length a = 1 then Inr (map (cmul (a ! 0)) c)
      else if length c = 1 then Inr (map (\<lambda>v. cmul v (c ! 0)) a)
      else Inl ValueError)"

text \<open>
  \<^verbatim>\<open>opt_fun\<close>, statement by statement. \<open>opt_fun_cf\<close> is the part up to the
  assignment of \<^verbatim>\<open>cf\<close> and returns the locals \<^verbatim>\<open>omega\<close> and \<^verbatim>\<open>cf\<close>. The
  quotient \<^verbatim>\<open>-1/self.dt\<close> is evaluated before \<^verbatim>\<open>cfXh\<close> is called, and calling
  \<^verbatim>\<open>None\<close> raises \<^verbatim>\<open>TypeError\<close>. The value of the t model at \<open>-i\<close> is a real
  double and its \<^verbatim>\<open>np.log\<close> the real logarithm, which is the complex one on the
  positive reals; the value lies there when \<open>gamma\<close> and \<open>kv\<close> are positive, as the two
  functions are at positive arguments.
\<close>

definition opt_fun_cf :: "speclib \<Rightarrow> class_attrs \<Rightarrow> estimator \<Rightarrow> paramsdict \<Rightarrow> string \<Rightarrow>
    py_error + npcomplex \<times> npcomplex list" where
  "opt_fun_cf lib cls self p model =
     (let u = self_u (grid self);
          dt = get_dt cls (inst_dt self)
      in bind_err (py_div (- 1) dt) (\<lambda>a.
         case get_cfXh model of
           None \<Rightarrow> Inl TypeError
         | Some cfXh \<Rightarrow>
             bind_err (call_cfXh lib dt cfXh p PyScalar (- \<i>)) (\<lambda>c.
               let omega = cmul (Cx (of_real a)) (np_clog c)
               in bind_err (getitem p ''mu'') (\<lambda>mu.
                  bind_err (sequence_err (map (\<lambda>v. call_cfXh lib dt cfXh p NpArray (of_real v)) u))
                    (\<lambda>cs.
                    Inr (omega,
                         map2 (\<lambda>v c. cmul
                                (cexp (cmul (Cx (\<i> * of_real v))
                                   (cadd (Cx (of_real (mu * dt))) (cmul omega (Cx (of_real dt))))))
                                c)
                           u cs))))))"

text \<open>\<^verbatim>\<open>densities_fft\<close>, from \<^verbatim>\<open>cf\<close>.\<close>

definition opt_fun_densities_fft :: "class_attrs \<Rightarrow> estimator \<Rightarrow> npcomplex list \<Rightarrow>
    py_error + npcomplex list" where
  "opt_fun_densities_fft cls self cf =
     (let u = self_u (grid self);
          b = self_b (grid self);
          eta = get_eta cls (inst_eta self)
      in bind_err (mul_arrays
                    (map (\<lambda>z. cmul z (Cx (of_real eta)))
                       (map2 (\<lambda>v c. cmul (cexp (Cx (\<i> * of_real b * of_real v))) c) u cf))
                    (map (\<lambda>v. Cx (of_real v)) (self_w (grid self)))) (\<lambda>integrand.
         bind_err (fft integrand) (\<lambda>y.
           Inr (map (cmul (Cx (of_real (1 / pi)))) y))))"

text \<open>\<^verbatim>\<open>densities\<close>, from \<^verbatim>\<open>densities_fft\<close>.\<close>

definition opt_fun_densities :: "estimator \<Rightarrow> npcomplex list \<Rightarrow> py_error + npfloat list" where
  "opt_fun_densities self densities_fft =
     bind_err (np_interp (data_returns self) (self_x (grid self)) (map np_real densities_fft))
       (\<lambda>v. Inr (np_clip v 0.000000001))"

text \<open>The densities at the observed returns, as \<^verbatim>\<open>opt_fun\<close> computes them.\<close>

definition densities :: "speclib \<Rightarrow> class_attrs \<Rightarrow> estimator \<Rightarrow> paramsdict \<Rightarrow> string \<Rightarrow>
    py_error + npfloat list" where
  "densities lib cls self p model =
     bind_err (opt_fun_cf lib cls self p model) (\<lambda>(omega, cf).
     bind_err (opt_fun_densities_fft cls self cf) (\<lambda>densities_fft.
       opt_fun_densities self densities_fft))"

definition opt_fun :: "speclib \<Rightarrow> class_attrs \<Rightarrow> estimator \<Rightarrow> parameter list \<Rightarrow> string \<Rightarrow>
    py_error + npfloat" where
  "opt_fun lib cls self params model =
     bind_err (densities lib cls self (valuesdict params) model) (\<lambda>ds.
       Inr (np_neg (np_sum (map np_log ds))))"

text \<open>
  \<^verbatim>\<open>estimate\<close> selects the initial parameters and hands the objective to the lmfit
  minimizer, which is not part of the notebook and is a parameter here. The objective it
  gets is \<^verbatim>\<open>opt_fun\<close> of the instance after the selection. The line that
  \<^verbatim>\<open>estimate\<close> prints is left out.
\<close>

definition estimate :: "((parameter list \<Rightarrow> py_error + npfloat) \<Rightarrow> parameter list \<Rightarrow> 'r) \<Rightarrow>
    speclib \<Rightarrow> class_attrs \<Rightarrow> estimator \<Rightarrow> string \<Rightarrow> 'r \<times> estimator" where
  "estimate minimize lib cls self model =
     (let (params, self') = get_init_estim_params self model
      in (minimize (\<lambda>ps. opt_fun lib cls self' ps model) params, self'))"

section \<open>A small instance\<close>

text \<open>
  The instance that \<^verbatim>\<open>Estimator([0.0], N = 2)\<close> constructs, and the initial parameters
  of the t model.
\<close>

definition est2 :: estimator where
  "est2 = \<lparr>data_returns = [Fin 0], inst_N = Some 2, inst_eta = None, inst_dt = None,
     grid = \<lparr>self_b = 2 * pi, self_lbda = 2 * pi, self_u = [0, 1/2],
       self_x = [- (2 * pi), 0], self_w = [1/2, 1/2]\<rparr>\<rparr>"

definition params_t :: "parameter list" where
  "params_t = [par ''mu'' 0.01 None None,
               par ''sigma'' 0.1 (Some 0.00001) None,
               par ''nu'' 100 (Some 2.00001) None]"



section \<open>Parameter sets and the formulas of the specification\<close>

text \<open>
  A parameter set of a model has the names and the bounds that \<^verbatim>\<open>get_init_estim_params\<close>
  declares for it, and values inside the bounds: the optimizer changes the values only,
  and keeps them there. The parameters that \<^verbatim>\<open>get_init_estim_params\<close> returns do not
  depend on the instance; they are read off the small instance.
\<close>

definition in_bounds :: "parameter \<Rightarrow> bool" where
  "in_bounds q =
     ((case par_min q of None \<Rightarrow> True | Some lo \<Rightarrow> lo \<le> par_value q)
      \<and> (case par_max q of None \<Rightarrow> True | Some hi \<Rightarrow> par_value q \<le> hi))"

definition param_set :: "string \<Rightarrow> parameter list \<Rightarrow> bool" where
  "param_set model ps =
     list_all2 (\<lambda>q q0. par_name q = par_name q0 \<and> par_min q = par_min q0
                 \<and> par_max q = par_max q0 \<and> in_bounds q)
       ps (fst (get_init_estim_params est2 model))"

text \<open>
  The arrays of the grid of an instance have one length, which is not zero; the
  constructor makes them so and the clamp of the t model keeps the length.
\<close>

definition grid_ok :: "estimator \<Rightarrow> bool" where
  "grid_ok self =
     (self_u (grid self) \<noteq> []
      \<and> length (self_x (grid self)) = length (self_u (grid self))
      \<and> length (self_w (grid self)) = length (self_u (grid self)))"

text \<open>
  The two formulas of the specification for the density evaluation, in its words: the
  drift correction \<open>omega = -(1/dt) * log c\<close> for the value \<open>c\<close> of the characteristic
  function at \<open>-i\<close>, and the per-step characteristic function
  \<open>cf(u) = exp (i * u * (mu * dt + omega * dt)) * c\<close> for its value \<open>c\<close> at \<open>u\<close>.
\<close>

definition spec_omega :: "real \<Rightarrow> npcomplex \<Rightarrow> npcomplex" where
  "spec_omega dt c = cmul (Cx (- (1 / of_real dt))) (np_clog c)"

definition spec_cf :: "real \<Rightarrow> real \<Rightarrow> npcomplex \<Rightarrow> real \<Rightarrow> npcomplex \<Rightarrow> npcomplex" where
  "spec_cf dt mu omega u c =
     cmul (cexp (cmul (Cx (\<i> * of_real u))
                   (cadd (Cx (of_real mu * of_real dt)) (cmul omega (Cx (of_real dt))))))
          c"

section \<open>The object store\<close>

text \<open>
  Instances and arrays are objects with an identity. In the store an instance holds
  references to its three grid arrays, the class holds its three attributes, and new
  objects get the next free address. A numpy operation that returns an array allocates
  it: the products and sums of \<^verbatim>\<open>make_fft_params\<close> and \<^verbatim>\<open>np.clip\<close>, which is called
  without \<^verbatim>\<open>out\<close>.
\<close>

record estimator_obj =
  obj_data_returns :: "npfloat list"
  obj_N :: "int option"
  obj_eta :: "real option"
  obj_dt :: "real option"
  obj_b :: real
  obj_lbda :: real
  obj_u :: nat
  obj_x :: nat
  obj_w :: nat

record store =
  class_vars :: class_attrs
  arrays :: "nat \<Rightarrow> real list option"
  objects :: "nat \<Rightarrow> estimator_obj option"
  next_array :: nat
  next_object :: nat

definition new_array :: "store \<Rightarrow> real list \<Rightarrow> nat \<times> store" where
  "new_array s v =
     (next_array s, s\<lparr>arrays := (arrays s)(next_array s \<mapsto> v), next_array := Suc (next_array s)\<rparr>)"

text \<open>An instance of the store as a value: its attributes, with the arrays read.\<close>

definition view :: "store \<Rightarrow> nat \<Rightarrow> estimator option" where
  "view s i =
     (case objects s i of
        None \<Rightarrow> None
      | Some ob \<Rightarrow>
          (case (arrays s (obj_u ob), arrays s (obj_x ob), arrays s (obj_w ob)) of
             (Some u, Some x, Some w) \<Rightarrow>
               Some \<lparr>data_returns = obj_data_returns ob, inst_N = obj_N ob,
                     inst_eta = obj_eta ob, inst_dt = obj_dt ob,
                     grid = \<lparr>self_b = obj_b ob, self_lbda = obj_lbda ob,
                              self_u = u, self_x = x, self_w = w\<rparr>\<rparr>
           | _ \<Rightarrow> None))"

text \<open>
  \<^verbatim>\<open>Estimator(data_returns, N, eta, dt)\<close> in the store: the constructor computes what
  \<open>init\<close> computes, from the class attributes of the store, and the new instance gets
  three new arrays. Only the attributes given are set on the instance.
\<close>

definition Estimator_new :: "store \<Rightarrow> npfloat option list \<Rightarrow> int option \<Rightarrow> real option \<Rightarrow>
    real option \<Rightarrow> py_error + nat \<times> store" where
  "Estimator_new s data n eta dt =
     bind_err (init (class_vars s) data n eta dt) (\<lambda>e.
       let (au, s1) = new_array s (self_u (grid e));
           (ax, s2) = new_array s1 (self_x (grid e));
           (aw, s3) = new_array s2 (self_w (grid e));
           i = next_object s3
       in Inr (i, s3\<lparr>objects := (objects s3)(i \<mapsto>
                 \<lparr>obj_data_returns = data_returns e, obj_N = inst_N e, obj_eta = inst_eta e,
                  obj_dt = inst_dt e, obj_b = self_b (grid e), obj_lbda = self_lbda (grid e),
                  obj_u = au, obj_x = ax, obj_w = aw\<rparr>),
               next_object := Suc i\<rparr>))"

text \<open>
  \<^verbatim>\<open>get_init_estim_params\<close> on the instance at address \<open>i\<close>: for the t model the
  clamped array is a new array, and \<^verbatim>\<open>self.u\<close> of that instance refers to it from
  then on; for every other model name the store stays as it is.
\<close>

definition select_params :: "store \<Rightarrow> nat \<Rightarrow> string \<Rightarrow> (parameter list \<times> store) option" where
  "select_params s i model =
     (case (objects s i, view s i) of
        (Some ob, Some e) \<Rightarrow>
          let (ps, e') = get_init_estim_params e model
          in if lower model = ''t''
             then let (a, s1) = new_array s (self_u (grid e'))
                  in Some (ps, s1\<lparr>objects := (objects s1)(i \<mapsto> ob\<lparr>obj_u := a\<rparr>)\<rparr>)
             else Some (ps, s)
      | _ \<Rightarrow> None)"

text \<open>
  A store is well formed when the addresses from the next free one on are free and every
  instance refers to allocated arrays.
\<close>

definition wf_store :: "store \<Rightarrow> bool" where
  "wf_store s =
     ((\<forall>a \<ge> next_array s. arrays s a = None)
      \<and> (\<forall>i \<ge> next_object s. objects s i = None)
      \<and> (\<forall>i ob. objects s i = Some ob \<longrightarrow>
            obj_u ob < next_array s \<and> obj_x ob < next_array s \<and> obj_w ob < next_array s))"

definition store0 :: store where
  "store0 = \<lparr>class_vars = Estimator_class, arrays = (\<lambda>a. None), objects = (\<lambda>i. None),
     next_array = 0, next_object = 0\<rparr>"

section \<open>Properties of the grid\<close>

lemma make_fft_params_Inr:
  assumes "0 < n" "eta \<noteq> 0"
  shows "make_fft_params eta n =
    Inr \<lparr>self_b = pi / eta, self_lbda = 2 * pi / (eta * real_of_int n),
         self_u = map (\<lambda>k. k * eta) (np_arange n),
         self_x = map (\<lambda>k. - (pi / eta) + k * (2 * pi / (eta * real_of_int n))) (np_arange n),
         self_w = (map (\<lambda>k. 1) (np_arange n))[0 := 0.5, nat (n - 1) := 0.5]\<rparr>"
  using assms
  by (simp add: make_fft_params_def bind_err_def py_div_def setitem_def np_arange_def Let_def)










section \<open>Properties of the model selection\<close>

lemma get_cfXh_None:
  assumes "lower model \<notin> {''gbm'', ''vg'', ''cgmy'', ''t''}"
  shows "get_cfXh model = None"
  using assms by (simp add: get_cfXh_def)

lemma opt_fun_cf_unknown:
  assumes "get_cfXh model = None"
  shows "opt_fun_cf lib cls self p model =
    (if get_dt cls (inst_dt self) = 0 then Inl ZeroDivisionError else Inl TypeError)"
  using assms by (simp add: opt_fun_cf_def py_div_def bind_err_def)

lemma init_params_instance:
  "fst (get_init_estim_params e model) = fst (get_init_estim_params est2 model)"
  by (simp add: get_init_estim_params_def)

lemma sequence_err_map_Inr: "sequence_err (map (\<lambda>v. Inr (g v)) us) = Inr (map g us)"
  by (induction us) (simp_all add: bind_err_def)

lemma param_set_gbm:
  assumes "lower model = ''gbm''" "param_set model ps"
  shows "\<exists>mu sigma. valuesdict ps = [(''mu'', mu), (''sigma'', sigma)] \<and> 1/100000 \<le> sigma"
  using assms
  by (auto simp: param_set_def get_init_estim_params_def list_all2_Cons2 valuesdict_def par_def
      in_bounds_def getval_def)

lemma param_set_vg:
  assumes "lower model = ''vg''" "param_set model ps"
  shows "\<exists>mu sigma theta nu. valuesdict ps =
      [(''mu'', mu), (''sigma'', sigma), (''theta'', theta), (''nu'', nu)]
      \<and> 1/100000 \<le> sigma \<and> 1/100000 \<le> nu"
  using assms
  by (auto simp: param_set_def get_init_estim_params_def list_all2_Cons2 valuesdict_def par_def
      in_bounds_def getval_def)

lemma param_set_cgmy:
  assumes "lower model = ''cgmy''" "param_set model ps"
  shows "\<exists>mu C G M Y. valuesdict ps =
      [(''mu'', mu), (''C'', C), (''G'', G), (''M'', M), (''Y'', Y)]
      \<and> 1/100000 \<le> C \<and> 1/100000 \<le> G \<and> 1/100000 \<le> M \<and> Y \<le> 2"
  using assms
  by (auto simp: param_set_def get_init_estim_params_def list_all2_Cons2 valuesdict_def par_def
      in_bounds_def getval_def)

lemma param_set_t:
  assumes "lower model = ''t''" "param_set model ps"
  shows "\<exists>mu sigma nu. valuesdict ps = [(''mu'', mu), (''sigma'', sigma), (''nu'', nu)]
      \<and> 1/100000 \<le> sigma \<and> 200001/100000 \<le> nu"
  using assms
  by (auto simp: param_set_def get_init_estim_params_def list_all2_Cons2 valuesdict_def par_def
      in_bounds_def getval_def)

text \<open>
  The Python power of a positive float is the real power, unless it overflows.
\<close>

lemma Arg_of_real_pos:
  assumes "0 < x"
  shows "Arg (complex_of_real x) = 0"
proof (rule cis_Arg_unique)
  show "sgn (complex_of_real x) = cis 0"
    using assms by (simp add: sgn_if complex_eq_iff)
qed simp_all

lemma cpow_of_real_pos:
  assumes "0 < x"
  shows "cpow (of_real x) a = of_real (x powr a)"
proof -
  have "clog (of_real x) = of_real (ln x)"
    using assms by (simp add: clog_def Arg_of_real_pos complex_eq_iff)
  moreover have "exp (complex_of_real a * complex_of_real (ln x)) = of_real (exp (a * ln x))"
    by (simp only: of_real_mult[symmetric] exp_of_real)
  ultimately show ?thesis
    using assms by (simp add: cpow_def powr_def)
qed

lemma py_fpow_pos:
  assumes "0 < x"
  shows "py_fpow x a =
    (if max_double < x powr a then Inl OverflowError else Inr (of_real (x powr a)))"
  using assms by (simp add: py_fpow_def py_cpow_def cpow_of_real_pos)

lemma py_fpow_square:
  assumes "0 < x"
  shows "py_fpow x 2 =
    (if max_double < x ^ 2 then Inl OverflowError else Inr (of_real (x ^ 2)))"
  using py_fpow_pos[OF assms, of 2] assms by (simp add: powr_numeral)

lemma max_double_ge: "2 ^ 1023 \<le> max_double"
  by (simp add: max_double_def)

lemma max_double_ge_one: "1 \<le> max_double"
  by (simp add: max_double_def)

lemma pow_u_array: "\<exists>c. pow_u NpArray z a = Inr c"
  by simp

lemma pow_u_cases:
  "pow_u k z a = Inl ZeroDivisionError \<or> pow_u k z a = Inl OverflowError
   \<or> (\<exists>c. pow_u k z a = Inr c)"
  by (cases k) (simp_all add: py_cpow_def bind_err_def)

lemma bind_err_cases:
  assumes "m = Inl ZeroDivisionError \<or> m = Inl OverflowError \<or> (\<exists>c. m = Inr c)"
    and "\<And>v. f v = Inl ZeroDivisionError \<or> f v = Inl OverflowError \<or> (\<exists>c. f v = Inr c)"
  shows "bind_err m f = Inl ZeroDivisionError \<or> bind_err m f = Inl OverflowError
    \<or> (\<exists>c. bind_err m f = Inr c)"
proof (cases m)
  case (Inl e)
  with assms(1) show ?thesis by (auto simp: bind_err_def)
next
  case (Inr v)
  with assms(2)[of v] show ?thesis by (simp add: bind_err_def)
qed

text \<open>
  The four functions on a parameter set of their model, with the values of the dictionary
  named.
\<close>

lemma cfXh_gbm_cases:
  assumes "valuesdict ps = [(''mu'', mu), (''sigma'', sigma)]" and "0 < sigma"
  shows "cfXh_gbm dt (valuesdict ps) k z =
    (if max_double < sigma ^ 2 then Inl OverflowError
     else Inr (Cx (exp (of_real (- 0.5) * of_real (sigma ^ 2) * of_real dt * z ^ 2))))"
  using assms by (simp add: cfXh_gbm_def getitem_def bind_err_def py_fpow_square)

lemma cfXh_vg_cases:
  assumes "valuesdict ps = [(''mu'', mu), (''sigma'', sigma), (''theta'', theta), (''nu'', nu)]"
    and "0 < nu" and "0 < sigma"
  shows "cfXh_vg dt (valuesdict ps) k z =
    (if max_double < sigma ^ 2 then Inl OverflowError
     else pow_u k (1 - \<i> * z * of_real theta * of_real nu
                     + of_real 0.5 * of_real (sigma ^ 2) * z ^ 2 * of_real nu)
            (- dt / nu))"
  using assms by (simp add: cfXh_vg_def getitem_def bind_err_def py_div_def py_fpow_square)

lemma cfXh_cgmy_cases:
  assumes "valuesdict ps = [(''mu'', mu), (''C'', C), (''G'', G), (''M'', M), (''Y'', Y)]"
    and "0 < M" and "0 < G"
  shows "cfXh_cgmy lib dt (valuesdict ps) k z =
    bind_err (pow_u k (of_real M - \<i> * z) Y) (\<lambda>p1.
      if max_double < M powr Y then Inl OverflowError
      else bind_err (pow_u k (of_real G + \<i> * z) Y) (\<lambda>p3.
        if max_double < G powr Y then Inl OverflowError
        else Inr (cexp (cmul (Cx (of_real (C * dt * gamma lib (- Y))))
               (csub (cadd (csub p1 (Cx (of_real (M powr Y)))) p3)
                  (Cx (of_real (G powr Y))))))))"
  using assms
  by (simp add: cfXh_cgmy_def getitem_def bind_err_def py_fpow_pos split: sum.splits)

lemma cfXh_t_cases:
  assumes "valuesdict ps = [(''mu'', mu), (''sigma'', sigma), (''nu'', nu)]"
  shows "cfXh_t lib dt (valuesdict ps) k z =
    (if max_double < 2 powr (nu / 2 - 1) then Inl OverflowError
     else if dt * (nu - 2) < 0 \<or> modu dt sigma nu z = 0 then Inr CNaN
     else Inr (Cx (of_real (kv lib (nu / 2) (modu dt sigma nu z) * modu dt sigma nu z powr (nu / 2))
                   / (of_real (gamma lib (nu / 2)) * of_real (2 powr (nu / 2 - 1))))))"
  using assms by (simp add: cfXh_t_def getitem_def bind_err_def py_fpow_pos)

text \<open>
  For a parameter set of the model, \<open>mu\<close> is in the dictionary, and a call of the
  characteristic function returns or raises \<^verbatim>\<open>ZeroDivisionError\<close> or
  \<^verbatim>\<open>OverflowError\<close>. When the call at a Python scalar returns, the call on the array of
  the grid raises nothing. The gbm and the t function do not raise
  \<^verbatim>\<open>ZeroDivisionError\<close>.
\<close>

lemma call_cfXh_cases:
  assumes "lower model \<in> {''gbm'', ''vg'', ''cgmy'', ''t''}" and "param_set model ps"
  shows "\<exists>cfXh mu. get_cfXh model = Some cfXh
     \<and> getitem (valuesdict ps) ''mu'' = Inr mu
     \<and> (\<forall>k z. call_cfXh lib dt cfXh (valuesdict ps) k z = Inl ZeroDivisionError
            \<or> call_cfXh lib dt cfXh (valuesdict ps) k z = Inl OverflowError
            \<or> (\<exists>c. call_cfXh lib dt cfXh (valuesdict ps) k z = Inr c))
     \<and> ((\<exists>z0 c0. call_cfXh lib dt cfXh (valuesdict ps) PyScalar z0 = Inr c0) \<longrightarrow>
            (\<forall>z. \<exists>c. call_cfXh lib dt cfXh (valuesdict ps) NpArray z = Inr c))
     \<and> (cfXh = CF_gbm \<or> cfXh = CF_t \<longrightarrow>
            (\<forall>k z. call_cfXh lib dt cfXh (valuesdict ps) k z \<noteq> Inl ZeroDivisionError))"
proof -
  consider "lower model = ''gbm''" | "lower model = ''vg''" | "lower model = ''cgmy''"
    | "lower model = ''t''"
    using assms(1) by auto
  then show ?thesis
  proof cases
    case 1
    from param_set_gbm[OF 1 assms(2)] obtain mu sigma where
      v: "valuesdict ps = [(''mu'', mu), (''sigma'', sigma)]" and "1/100000 \<le> sigma" by blast
    then have p: "0 < sigma" by auto
    have g: "get_cfXh model = Some CF_gbm" using 1 by (simp add: get_cfXh_def)
    have m: "getitem (valuesdict ps) ''mu'' = Inr mu" by (simp add: v getitem_def)
    show ?thesis
      unfolding g using m by (simp add: cfXh_gbm_cases[OF v p])
  next
    case 2
    from param_set_vg[OF 2 assms(2)] obtain mu sigma theta nu where
      v: "valuesdict ps = [(''mu'', mu), (''sigma'', sigma), (''theta'', theta), (''nu'', nu)]"
      and "1/100000 \<le> nu" "1/100000 \<le> sigma" by blast
    then have p: "0 < nu" "0 < sigma" by auto
    have g: "get_cfXh model = Some CF_vg" using 2 by (simp add: get_cfXh_def)
    have m: "getitem (valuesdict ps) ''mu'' = Inr mu" by (simp add: v getitem_def)
    show ?thesis
      using pow_u_cases pow_u_array unfolding g
      by (simp add: cfXh_vg_cases[OF v p] m del: pow_u.simps)
  next
    case 3
    from param_set_cgmy[OF 3 assms(2)] obtain mu C G M Y where
      v: "valuesdict ps = [(''mu'', mu), (''C'', C), (''G'', G), (''M'', M), (''Y'', Y)]"
      and "1/100000 \<le> G" "1/100000 \<le> M" by blast
    then have p: "0 < M" "0 < G" by auto
    have g: "get_cfXh model = Some CF_cgmy" using 3 by (simp add: get_cfXh_def)
    have m: "getitem (valuesdict ps) ''mu'' = Inr mu" by (simp add: v getitem_def)
    have s: "call_cfXh lib dt CF_cgmy (valuesdict ps) k z = Inl ZeroDivisionError
        \<or> call_cfXh lib dt CF_cgmy (valuesdict ps) k z = Inl OverflowError
        \<or> (\<exists>c. call_cfXh lib dt CF_cgmy (valuesdict ps) k z = Inr c)" for k z
      unfolding call_cfXh.simps cfXh_cgmy_cases[OF v p]
    proof (rule bind_err_cases[OF pow_u_cases])
      fix p1
      let ?inner = "bind_err (pow_u k (of_real G + \<i> * z) Y) (\<lambda>p3.
        if max_double < G powr Y then Inl OverflowError
        else Inr (cexp (cmul (Cx (of_real (C * dt * gamma lib (- Y))))
               (csub (cadd (csub p1 (Cx (of_real (M powr Y)))) p3)
                  (Cx (of_real (G powr Y)))))))"
      have "?inner = Inl ZeroDivisionError \<or> ?inner = Inl OverflowError \<or> (\<exists>c. ?inner = Inr c)"
        by (rule bind_err_cases[OF pow_u_cases]) simp
      then show "(if max_double < M powr Y then Inl OverflowError else ?inner) = Inl ZeroDivisionError
        \<or> (if max_double < M powr Y then Inl OverflowError else ?inner) = Inl OverflowError
        \<or> (\<exists>c. (if max_double < M powr Y then Inl OverflowError else ?inner) = Inr c)"
        by simp
    qed
    have a: "\<exists>c. call_cfXh lib dt CF_cgmy (valuesdict ps) NpArray z = Inr c"
      if "call_cfXh lib dt CF_cgmy (valuesdict ps) PyScalar z0 = Inr c0" for z z0 c0
    proof -
      have "\<not> max_double < M powr Y \<and> \<not> max_double < G powr Y"
        using that
        by (auto simp: cfXh_cgmy_cases[OF v p] bind_err_def split: sum.splits if_splits)
      then show ?thesis
        by (simp add: cfXh_cgmy_cases[OF v p] bind_err_def)
    qed
    show ?thesis
      unfolding g using a s m by (simp only: option.inject simp_thms cfXh.distinct) blast
  next
    case 4
    from param_set_t[OF 4 assms(2)] obtain mu sigma nu where
      v: "valuesdict ps = [(''mu'', mu), (''sigma'', sigma), (''nu'', nu)]" by blast
    have g: "get_cfXh model = Some CF_t" using 4 by (simp add: get_cfXh_def)
    have m: "getitem (valuesdict ps) ''mu'' = Inr mu" by (simp add: v getitem_def)
    show ?thesis
      unfolding g using m by (simp add: cfXh_t_cases[OF v])
  qed
qed

lemma opt_fun_cf_eq:
  assumes s: "get_cfXh model = Some cfXh"
    and r: "\<forall>z. call_cfXh lib (get_dt cls (inst_dt self)) cfXh p NpArray z = Inr (charFn z)"
    and m: "getitem p ''mu'' = Inr mu"
    and d: "get_dt cls (inst_dt self) \<noteq> 0"
  shows "opt_fun_cf lib cls self p model =
    (case call_cfXh lib (get_dt cls (inst_dt self)) cfXh p PyScalar (- \<i>) of
       Inl e \<Rightarrow> Inl e
     | Inr c \<Rightarrow>
         Inr (spec_omega (get_dt cls (inst_dt self)) c,
              map (\<lambda>v. spec_cf (get_dt cls (inst_dt self)) mu
                          (spec_omega (get_dt cls (inst_dt self)) c) v (charFn (of_real v)))
                (self_u (grid self))))"
proof -
  have z: "map2 f us (map g us) = map (\<lambda>v. f v (g v)) us" for f :: "real \<Rightarrow> npcomplex \<Rightarrow> npcomplex"
    and g and us :: "real list"
    by (induction us) simp_all
  show ?thesis
    using d
    by (simp add: opt_fun_cf_def s r m py_div_def bind_err_def sequence_err_map_Inr z
        spec_omega_def spec_cf_def Let_def divide_inverse cong: map_cong split: sum.splits)
qed

lemma opt_fun_cf_raises:
  assumes "get_cfXh model = Some cfXh" and "get_dt cls (inst_dt self) \<noteq> 0"
    and "call_cfXh lib (get_dt cls (inst_dt self)) cfXh p PyScalar (- \<i>) = Inl e"
  shows "opt_fun_cf lib cls self p model = Inl e"
  using assms by (simp add: opt_fun_cf_def py_div_def bind_err_def)



section \<open>Properties of the constructor\<close>




text \<open>
  C8, amended. The stored returns are the input sequence without its missing and \<open>NaN\<close>
  entries, in the order of the input; an infinite entry is not a missing value and stays.
\<close>

theorem C8_stored_returns:
  assumes "init cls data n eta dt = Inr e"
  shows "data_returns e = filter (\<lambda>v. v \<noteq> NaN) (map (\<lambda>v. case v of None \<Rightarrow> NaN | Some f \<Rightarrow> f) data)
    \<and> NaN \<notin> set (data_returns e)
    \<and> (\<forall>v. v \<in> set (data_returns e) \<longleftrightarrow> Some v \<in> set data \<and> v \<noteq> NaN)"
proof -
  have d: "data_returns e = dropna (pd_Series data)"
    using assms by (auto simp: init_def bind_err_def split: sum.splits)
  have "v \<in> set (data_returns e) \<longleftrightarrow> Some v \<in> set data \<and> v \<noteq> NaN" for v
    unfolding d dropna_def pd_Series_def by (force split: option.splits)
  then show ?thesis
    unfolding d by (simp add: dropna_def pd_Series_def)
qed

theorem C8_stored_returns_witness:
  "\<exists>e. init Estimator_class [Some (Fin 1), None, Some NaN, Some (Fin (- 2))] (Some 2) None None = Inr e
     \<and> data_returns e = [Fin 1, Fin (- 2)]"
proof -
  have "\<not> isl (init Estimator_class [Some (Fin 1), None, Some NaN, Some (Fin (- 2))] (Some 2) None None)"
    by (simp add: init_def make_fft_params_Inr get_N_def get_eta_def Estimator_class_def bind_err_def)
  then obtain e where
    e: "init Estimator_class [Some (Fin 1), None, Some NaN, Some (Fin (- 2))] (Some 2) None None = Inr e"
    by (cases "init Estimator_class [Some (Fin 1), None, Some NaN, Some (Fin (- 2))] (Some 2) None None") auto
  from C8_stored_returns [OF e] have "data_returns e = [Fin 1, Fin (- 2)]"
    by simp
  with e show ?thesis by blast
qed

text \<open>C8 as stated fails: infinite entries are kept.\<close>

theorem C8_keeps_infinities_counterexample:
  "map_sum id (\<lambda>e. (data_returns e, list_all isfinite (data_returns e)))
     (init Estimator_class [Some (Fin 1), Some PInf, None, Some NInf] (Some 2) None None)
   = Inr ([Fin 1, PInf, NInf], False)"
  by (simp add: init_def make_fft_params_Inr get_N_def get_eta_def Estimator_class_def
      bind_err_def dropna_def pd_Series_def)

section \<open>Unknown models and the clamp of the t model\<close>

text \<open>
  C6, amended. No \<open>UnknownModel\<close> error exists. For a model name that matches none of
  the four under \<^verbatim>\<open>lower\<close>, \<^verbatim>\<open>get_cfXh\<close> returns \<^verbatim>\<open>None\<close> and
  \<^verbatim>\<open>get_init_estim_params\<close> returns an empty parameter set and leaves the instance as
  it is; neither raises. \<^verbatim>\<open>estimate\<close> hands the minimizer an objective that raises at
  each evaluation: \<^verbatim>\<open>TypeError\<close> from calling \<^verbatim>\<open>None\<close>, or
  \<^verbatim>\<open>ZeroDivisionError\<close> when \<open>dt\<close> is zero.
\<close>

theorem C6_unknown_model:
  assumes "lower model \<notin> {''gbm'', ''vg'', ''cgmy'', ''t''}"
  shows "get_cfXh model = None
    \<and> get_init_estim_params self model = ([], self)
    \<and> opt_fun lib cls self params model =
        (if get_dt cls (inst_dt self) = 0 then Inl ZeroDivisionError else Inl TypeError)
    \<and> estimate minimize lib cls self model =
        (minimize (\<lambda>ps. if get_dt cls (inst_dt self) = 0 then Inl ZeroDivisionError
                         else Inl TypeError) [], self)"
proof -
  have n: "get_cfXh model = None"
    using assms by (rule get_cfXh_None)
  have s: "get_init_estim_params self model = ([], self)"
    using assms by (simp add: get_init_estim_params_def)
  have o: "opt_fun lib cls self ps model =
      (if get_dt cls (inst_dt self) = 0 then Inl ZeroDivisionError else Inl TypeError)" for ps
    by (simp add: opt_fun_def densities_def opt_fun_cf_unknown[OF n] bind_err_def)
  show ?thesis
    by (simp add: n s o estimate_def)
qed

theorem C6_unknown_model_witness:
  "lower ''Unknown'' \<notin> {''gbm'', ''vg'', ''cgmy'', ''t''}
   \<and> (\<forall>lib. opt_fun lib Estimator_class est2 [] ''Unknown'' = Inl TypeError)
   \<and> get_init_estim_params est2 ''Unknown'' = ([], est2)"
proof -
  have h: "lower ''Unknown'' \<notin> {''gbm'', ''vg'', ''cgmy'', ''t''}"
    by (simp add: lower_def lower_char_def)
  have d: "get_dt Estimator_class (inst_dt est2) \<noteq> 0"
    by (simp add: get_dt_def est2_def Estimator_class_def)
  have "opt_fun lib Estimator_class est2 [] ''Unknown'' = Inl TypeError" for lib
    using C6_unknown_model [OF h, of est2 lib Estimator_class "[]" "\<lambda>f ps. ()"] d by simp
  moreover have "get_init_estim_params est2 ''Unknown'' = ([], est2)"
    using C6_unknown_model [OF h, of est2 _ _ _ "\<lambda>f ps. ()"] by simp
  ultimately show ?thesis using h by blast
qed

text \<open>
  C6 as stated fails: for the name \<open>unknown\<close> both selection functions return, and what
  they return is not an error.
\<close>

theorem C6_selection_returns_counterexample:
  "get_cfXh ''unknown'' = None \<and> get_init_estim_params est2 ''unknown'' = ([], est2)"
  by (simp add: get_cfXh_def get_init_estim_params_def lower_def lower_char_def)

text \<open>
  C5. The statement of the t model
  \<^verbatim>\<open>self.u = np.clip(self.u, a_min = 0.001, a_max = None)\<close> assigns the instance
  attribute, so the clamped array is the frequency grid of every later evaluation on the
  instance, whatever the model: after the selection of the t model on the instance of
  two grid points the first node is \<open>0.001\<close>, and a selection of the gbm model after that
  leaves it there.
\<close>

theorem C5_clamp_persists:
  "self_u (grid est2) = [0, 1/2]
   \<and> self_u (grid (snd (get_init_estim_params est2 ''t''))) = [1/1000, 1/2]
   \<and> self_u (grid (snd (get_init_estim_params (snd (get_init_estim_params est2 ''t'')) ''gbm'')))
       = [1/1000, 1/2]"
  by (simp add: get_init_estim_params_def lower_def lower_char_def est2_def clip_u_def)

section \<open>Properties of the objective\<close>

lemma foldl_np_add_finite:
  assumes "\<forall>v \<in> set vs. isfinite v"
  shows "isfinite (foldl np_add (Fin a) vs)"
  using assms
proof (induction vs arbitrary: a)
  case Nil
  show ?case by simp
next
  case (Cons v vs)
  then obtain r where "v = Fin r" by (cases v) auto
  with Cons show ?case by simp
qed

lemma foldl_np_add_NaN: "foldl np_add NaN vs = NaN"
  by (induction vs) simp_all

lemma foldl_np_add_has_NaN:
  assumes "NaN \<in> set vs"
  shows "foldl np_add a vs = NaN"
  using assms
proof (induction vs arbitrary: a)
  case Nil
  then show ?case by simp
next
  case (Cons v vs)
  show ?case
  proof (cases "v = NaN")
    case True
    then show ?thesis by (cases a) (simp_all add: foldl_np_add_NaN)
  next
    case False
    with Cons show ?thesis by simp
  qed
qed

text \<open>
  What the clip does to one value: \<open>NaN\<close> passes, a value at or below the floor, minus
  infinity included, becomes the floor, and a value above it is kept.
\<close>

lemma np_maximum_floor:
  "np_maximum v (Fin a) = (if v = NaN then NaN else if np_le v (Fin a) then Fin a else v)"
  by (cases v) simp_all

lemma np_maximum_above: "np_maximum v (Fin a) = NaN \<or> np_le (Fin a) (np_maximum v (Fin a))"
  by (cases v) simp_all

lemma np_log_above:
  assumes "isfinite d" and "np_le (Fin a) d" and "0 < a"
  shows "isfinite (np_log d)"
  using assms by (cases d) simp_all

lemma length_interp_loop: "length (interp_loop xp fp j qs) = length qs"
  by (induction qs arbitrary: j) simp_all

lemma np_interp_Inr:
  assumes "xp \<noteq> []" and "length fp = length xp"
  shows "\<exists>vs. np_interp qs xp fp = Inr vs \<and> length vs = length qs"
  using assms by (simp add: np_interp_def length_interp_loop)

lemma fft_Inr:
  assumes "a \<noteq> []"
  shows "\<exists>y. fft a = Inr y \<and> length y = length a"
  using assms by (simp add: fft_def Let_def)

text \<open>
  The density evaluation on an instance with a grid, for a parameter set of the model.
  The only statement that can raise is the call of the characteristic function at the
  Python scalar \<open>-i\<close>, with \<^verbatim>\<open>ZeroDivisionError\<close> or \<^verbatim>\<open>OverflowError\<close>. When it
  returns, the transform and the interpolation return, and the densities are the clipped
  interpolated values \<open>vs\<close>.
\<close>

lemma densities_cases:
  assumes "grid_ok self" and "get_dt cls (inst_dt self) \<noteq> 0"
    and "lower model \<in> {''gbm'', ''vg'', ''cgmy'', ''t''}" and "param_set model ps"
  shows "\<exists>cfXh. get_cfXh model = Some cfXh \<and>
    (case call_cfXh lib (get_dt cls (inst_dt self)) cfXh (valuesdict ps) PyScalar (- \<i>) of
       Inl e \<Rightarrow> (e = ZeroDivisionError \<or> e = OverflowError)
           \<and> densities lib cls self (valuesdict ps) model = Inl e
     | Inr c \<Rightarrow> \<exists>omega cf densities_fft vs.
           opt_fun_cf lib cls self (valuesdict ps) model = Inr (omega, cf)
         \<and> opt_fun_densities_fft cls self cf = Inr densities_fft
         \<and> np_interp (data_returns self) (self_x (grid self)) (map np_real densities_fft) = Inr vs
         \<and> length vs = length (data_returns self)
         \<and> densities lib cls self (valuesdict ps) model = Inr (np_clip vs (1/10^9)))"
proof -
  define us where "us = self_u (grid self)"
  define dt where "dt = get_dt cls (inst_dt self)"
  have g: "us \<noteq> []" "length (self_x (grid self)) = length us"
    "length (self_w (grid self)) = length us"
    using assms(1) by (simp_all add: grid_ok_def us_def)
  from call_cfXh_cases[OF assms(3,4), of lib dt]
  obtain cfXh mu where
    s: "get_cfXh model = Some cfXh" and
    m: "getitem (valuesdict ps) ''mu'' = Inr mu" and
    k: "\<forall>k z. call_cfXh lib dt cfXh (valuesdict ps) k z = Inl ZeroDivisionError
            \<or> call_cfXh lib dt cfXh (valuesdict ps) k z = Inl OverflowError
            \<or> (\<exists>c. call_cfXh lib dt cfXh (valuesdict ps) k z = Inr c)" and
    a: "(\<exists>z0 c0. call_cfXh lib dt cfXh (valuesdict ps) PyScalar z0 = Inr c0) \<longrightarrow>
            (\<forall>z. \<exists>c. call_cfXh lib dt cfXh (valuesdict ps) NpArray z = Inr c)"
    by blast
  show ?thesis
  proof (cases "call_cfXh lib dt cfXh (valuesdict ps) PyScalar (- \<i>)")
    case (Inl e)
    have e: "e = ZeroDivisionError \<or> e = OverflowError"
      using k[rule_format, of PyScalar "- \<i>"] unfolding Inl
      by (simp only: sum.inject sum.distinct simp_thms ex_simps)
    have "densities lib cls self (valuesdict ps) model = Inl e"
      using opt_fun_cf_raises[OF s assms(2) Inl[unfolded dt_def]]
      by (simp add: densities_def bind_err_def)
    then show ?thesis
      using s Inl e by (simp add: dt_def)
  next
    case (Inr c)
    with a have "\<forall>z. \<exists>c. call_cfXh lib dt cfXh (valuesdict ps) NpArray z = Inr c"
      by blast
    then obtain charFn where
      r: "\<forall>z. call_cfXh lib dt cfXh (valuesdict ps) NpArray z = Inr (charFn z)"
      by metis
    note eq = opt_fun_cf_eq[OF s r[unfolded dt_def] m assms(2), folded dt_def us_def]
    define omega where "omega = spec_omega dt c"
    define cf where "cf = map (\<lambda>v. spec_cf dt mu omega v (charFn (of_real v))) us"
    have cf: "opt_fun_cf lib cls self (valuesdict ps) model = Inr (omega, cf)"
      by (simp add: eq Inr omega_def cf_def)
    have l: "length cf = length us" by (simp add: cf_def)
    have "\<exists>i. mul_arrays
        (map (\<lambda>z. cmul z (Cx (of_real (get_eta cls (inst_eta self)))))
           (map2 (\<lambda>v c. cmul (cexp (Cx (\<i> * of_real (self_b (grid self)) * of_real v))) c) us cf))
        (map (\<lambda>v. Cx (of_real v)) (self_w (grid self))) = Inr i \<and> length i = length us"
      using g l by (simp add: mul_arrays_def)
    then obtain i where i: "mul_arrays
        (map (\<lambda>z. cmul z (Cx (of_real (get_eta cls (inst_eta self)))))
           (map2 (\<lambda>v c. cmul (cexp (Cx (\<i> * of_real (self_b (grid self)) * of_real v))) c) us cf))
        (map (\<lambda>v. Cx (of_real v)) (self_w (grid self))) = Inr i" "length i = length us"
      by blast
    then have "i \<noteq> []" using g(1) by auto
    from fft_Inr[OF this] obtain y where y: "fft i = Inr y" "length y = length us"
      using i(2) by auto
    define densities_fft where "densities_fft = map (cmul (Cx (of_real (1 / pi)))) y"
    have f: "opt_fun_densities_fft cls self cf = Inr densities_fft"
      using i(1) y(1)
      by (simp add: opt_fun_densities_fft_def us_def[symmetric] bind_err_def densities_fft_def)
    have "self_x (grid self) \<noteq> []"
      "length (map np_real densities_fft) = length (self_x (grid self))"
      using g y(2) by (auto simp: densities_fft_def)
    from np_interp_Inr[OF this, of "data_returns self"] obtain vs where
      vs: "np_interp (data_returns self) (self_x (grid self)) (map np_real densities_fft) = Inr vs"
        "length vs = length (data_returns self)" by blast
    have "densities lib cls self (valuesdict ps) model = Inr (np_clip vs (1/10^9))"
      by (simp add: densities_def cf f opt_fun_densities_def vs(1) bind_err_def)
    with cf f vs s Inr show ?thesis
      by (auto simp: dt_def)
  qed
qed

section \<open>The small instance\<close>

lemma est2_init: "init Estimator_class [Some (Fin 0)] (Some 2) None None = Inr est2"
  by (simp add: init_def make_fft_params_def bind_err_def py_div_def setitem_def np_arange_def
      Let_def get_N_def get_eta_def Estimator_class_def est2_def pd_Series_def dropna_def
      upt_rec[of 0] upt_rec[of 1] upt_rec[of "Suc 0"] numeral_2_eq_2)

lemma dt_est2: "get_dt Estimator_class (inst_dt est2) = 1/252"
  by (simp add: get_dt_def est2_def Estimator_class_def)

lemma param_set_params_t: "param_set ''t'' params_t"
  by (simp add: param_set_def get_init_estim_params_def lower_def lower_char_def params_t_def
      par_def in_bounds_def)

lemma foldl_cadd_CNaN: "foldl cadd CNaN zs = CNaN"
  by (induction zs) simp_all

lemma foldl_cadd_has_CNaN:
  assumes "CNaN \<in> set zs"
  shows "foldl cadd a zs = CNaN"
  using assms
proof (induction zs arbitrary: a)
  case Nil
  then show ?case by simp
next
  case (Cons z zs)
  show ?case
  proof (cases "z = CNaN")
    case True
    then show ?thesis by (cases a) (simp_all add: foldl_cadd_CNaN)
  next
    case False
    with Cons show ?thesis by simp
  qed
qed

lemma fft_has_CNaN:
  assumes "CNaN \<in> set a"
  shows "fft a = Inr (replicate (length a) CNaN)"
proof -
  from assms obtain m where m: "m < length a" "a ! m = CNaN"
    by (metis in_set_conv_nth)
  define t :: "nat \<Rightarrow> nat \<Rightarrow> complex" where
    "t = (\<lambda>k m. exp (- 2 * complex_of_real pi * \<i> * of_nat k * of_nat m / of_nat (length a)))"
  have "foldl cadd (Cx 0) (map (\<lambda>m. cmul (a ! m) (Cx (t k m))) [0..<length a]) = CNaN" for k
  proof (rule foldl_cadd_has_CNaN)
    have "cmul (a ! m) (Cx (t k m)) \<in> set (map (\<lambda>m. cmul (a ! m) (Cx (t k m))) [0..<length a])"
      using m(1) by (simp del: cmul.simps)
    then show "CNaN \<in> set (map (\<lambda>m. cmul (a ! m) (Cx (t k m))) [0..<length a])"
      by (simp add: m(2))
  qed
  then have "map (\<lambda>k. foldl cadd (Cx 0)
                 (map (\<lambda>m. cmul (a ! m) (Cx (t k m))) [0..<length a])) [0..<length a]
      = replicate (length a) CNaN"
    by (simp add: map_replicate_const)
  then have "map (\<lambda>k. foldl cadd (Cx 0)
                 (map (\<lambda>m. cmul (a ! m)
                    (Cx (exp (- 2 * complex_of_real pi * \<i> * of_nat k * of_nat m / of_nat (length a)))))
                  [0..<length a])) [0..<length a] = replicate (length a) CNaN"
    unfolding t_def .
  moreover have "a \<noteq> []" using assms by auto
  ultimately show ?thesis
    by (simp add: fft_def Let_def)
qed



text \<open>
  On the instance of two grid points, as constructed, the first frequency node is zero.
  There the characteristic function of the t model is \<open>NaN\<close>, the transform spreads it
  over the grid, and the density at the observed return is \<open>NaN\<close>, whatever values the
  special functions take.
\<close>

lemma densities_est2_t: "densities lib Estimator_class est2 (valuesdict params_t) ''t'' = Inr [NaN]"
proof -
  define p where "p = valuesdict params_t"
  have p: "p = [(''mu'', 1/100), (''sigma'', 1/10), (''nu'', 100)]"
    by (simp add: p_def valuesdict_def getval_def params_t_def par_def)
  have "(2::real) powr (100 / 2 - 1) = 2 ^ 49"
    by simp
  then have no: "\<not> max_double < 2 powr (100 / 2 - 1)"
    using max_double_ge by simp
  note t = cfXh_t_cases[OF p[unfolded p_def], folded p_def]
  have c0: "call_cfXh lib (1/252) CF_t p NpArray 0 = Inr CNaN"
    using no by (simp add: t modu_def)
  have g: "get_cfXh ''t'' = Some CF_t"
    by (simp add: get_cfXh_def lower_def lower_char_def)
  have "\<exists>c. call_cfXh lib (1/252) CF_t p k z = Inr c" for k z
    using no by (simp add: t)
  then obtain charFn c where
    r: "\<forall>z. call_cfXh lib (get_dt Estimator_class (inst_dt est2)) CF_t p NpArray z = Inr (charFn z)"
    and c: "call_cfXh lib (1/252) CF_t p PyScalar (- \<i>) = Inr c"
    unfolding dt_est2 by metis
  have m: "getitem p ''mu'' = Inr (1/100)"
    by (simp add: p getitem_def)
  have d: "get_dt Estimator_class (inst_dt est2) \<noteq> 0"
    by (simp add: dt_est2)
  have "charFn 0 = CNaN"
    using r[rule_format, of 0] c0 by (simp add: dt_est2)
  then have z: "spec_cf (1/252) (1/100) omega 0 (charFn 0) = CNaN" for omega
    by (simp add: spec_cf_def)
  have u: "self_u (grid est2) = [0, 1/2]" and w: "self_w (grid est2) = [1/2, 1/2]"
    and x: "self_x (grid est2) = [- (2 * pi), 0]" and q: "data_returns est2 = [Fin 0]"
    by (simp_all add: est2_def)
  obtain omega c1 where cf: "opt_fun_cf lib Estimator_class est2 p ''t'' = Inr (omega, [CNaN, c1])"
    using opt_fun_cf_eq[OF g r m d] by (simp add: dt_est2 u z c del: call_cfXh.simps)
  obtain i where i: "mul_arrays
        (map (\<lambda>z. cmul z (Cx (of_real (get_eta Estimator_class (inst_eta est2)))))
           (map2 (\<lambda>v c. cmul (cexp (Cx (\<i> * of_real (self_b (grid est2)) * of_real v))) c)
              (self_u (grid est2)) [CNaN, c1]))
        (map (\<lambda>v. Cx (of_real v)) (self_w (grid est2))) = Inr [CNaN, i]"
    by (simp add: mul_arrays_def u w)
  have f: "opt_fun_densities_fft Estimator_class est2 [CNaN, c1] = Inr [CNaN, CNaN]"
    unfolding opt_fun_densities_fft_def Let_def i
    using fft_has_CNaN[of "[CNaN, i]"] by (simp add: bind_err_def numeral_2_eq_2)
  have pi: "\<not> 0 < - (2 * pi)" "\<not> 0 < - (pi * 2)"
    using pi_gt_zero by simp_all
  have s: "search (Fin 0) [- (2 * pi), 0] 0 = 1"
    using pi by (simp add: search_def binary_search_with_guess_def)
  have d: "opt_fun_densities est2 [CNaN, CNaN] = Inr [NaN]"
    by (simp add: opt_fun_densities_def np_interp_def s interp_at_def np_clip_def bind_err_def x q)
  show ?thesis
    unfolding p_def[symmetric] by (simp add: densities_def cf f d bind_err_def)
qed





text \<open>
  The gbm model on the same instance, with the initial parameters that
  \<^verbatim>\<open>get_init_estim_params\<close> returns for it: every intermediate value is a number, and
  the density at the observed return is a finite real.
\<close>

lemma lower_gbm: "lower ''gbm'' \<in> {''gbm'', ''vg'', ''cgmy'', ''t''}"
  by (simp add: lower_def lower_char_def)

lemma init_params_gbm:
  "fst (get_init_estim_params est2 ''gbm'')
     = [par ''mu'' 0.01 None None, par ''sigma'' 0.10 (Some 0.00001) None]"
  by (simp add: get_init_estim_params_def lower_def lower_char_def)

lemma param_set_init_gbm: "param_set ''gbm'' (fst (get_init_estim_params est2 ''gbm''))"
  by (simp add: param_set_def init_params_gbm par_def in_bounds_def)

lemma grid_ok_est2: "grid_ok est2"
  by (simp add: grid_ok_def est2_def)

lemma densities_est2_gbm:
  "\<exists>r. densities lib Estimator_class est2
          (valuesdict (fst (get_init_estim_params est2 ''gbm''))) ''gbm'' = Inr [Fin r]"
proof -
  define p where "p = valuesdict (fst (get_init_estim_params est2 ''gbm''))"
  have p: "p = [(''mu'', 1/100), (''sigma'', 1/10)]"
    by (simp add: p_def init_params_gbm valuesdict_def getval_def par_def)
  have g: "get_cfXh ''gbm'' = Some CF_gbm"
    by (simp add: get_cfXh_def lower_def lower_char_def)
  define charFn where
    "charFn = (\<lambda>z. Cx (exp (complex_of_real (- 0.5) * of_real ((1/10) ^ 2) * of_real (1/252)
       * z ^ 2)))"
  have "((1::real)/10) ^ 2 \<le> 1"
    by (simp add: power2_eq_square)
  then have no: "\<not> max_double < (1/10) ^ 2"
    using max_double_ge_one by linarith
  have sg: "(0::real) < 1/10"
    by simp
  note t = cfXh_gbm_cases[OF p[unfolded p_def] sg, folded p_def]
  have r: "\<forall>z. call_cfXh lib (get_dt Estimator_class (inst_dt est2)) CF_gbm p NpArray z
      = Inr (charFn z)"
    using no by (simp add: t dt_est2 charFn_def)
  have c: "call_cfXh lib (get_dt Estimator_class (inst_dt est2)) CF_gbm p PyScalar (- \<i>)
      = Inr (charFn (- \<i>))"
    using no by (simp add: t dt_est2 charFn_def)
  have m: "getitem p ''mu'' = Inr (1/100)"
    by (simp add: p getitem_def)
  have d: "get_dt Estimator_class (inst_dt est2) \<noteq> 0"
    by (simp add: dt_est2)
  have u: "self_u (grid est2) = [0, 1/2]" and w: "self_w (grid est2) = [1/2, 1/2]"
    and x: "self_x (grid est2) = [- (2 * pi), 0]" and q: "data_returns est2 = [Fin 0]"
    by (simp_all add: est2_def)
  have "\<exists>om. spec_omega (1/252) (charFn (- \<i>)) = Cx om"
    by (simp add: spec_omega_def charFn_def)
  then obtain om where om: "spec_omega (1/252) (charFn (- \<i>)) = Cx om" ..
  have "\<exists>a. spec_cf (1/252) (1/100) (Cx om) v (charFn z) = Cx a" for v z
    by (simp add: spec_cf_def charFn_def)
  then obtain a0 a1 where
    a: "spec_cf (1/252) (1/100) (Cx om) 0 (charFn 0) = Cx a0"
       "spec_cf (1/252) (1/100) (Cx om) (1/2) (charFn (1/2)) = Cx a1"
    by metis
  have cf: "opt_fun_cf lib Estimator_class est2 p ''gbm'' = Inr (Cx om, [Cx a0, Cx a1])"
    unfolding opt_fun_cf_eq[OF g r m d] c u
    using a by (simp add: dt_est2 om)
  have "\<exists>y0 y1. opt_fun_densities_fft Estimator_class est2 [Cx a0, Cx a1] = Inr [Cx y0, Cx y1]"
    by (simp add: opt_fun_densities_fft_def mul_arrays_def u w fft_def bind_err_def Let_def
        upt_rec[of 0] upt_rec[of 1] upt_rec[of "Suc 0"] numeral_2_eq_2)
  then obtain y0 y1 where
    f: "opt_fun_densities_fft Estimator_class est2 [Cx a0, Cx a1] = Inr [Cx y0, Cx y1]"
    by blast
  have pi: "\<not> 0 < - (2 * pi)" "\<not> 0 < - (pi * 2)"
    using pi_gt_zero by simp_all
  have s: "search (Fin 0) [- (2 * pi), 0] 0 = 1"
    using pi by (simp add: search_def binary_search_with_guess_def)
  have "opt_fun_densities est2 [Cx y0, Cx y1]
      = Inr [np_maximum (Fin (Re y1)) (Fin (1/10^9))]"
    by (simp add: opt_fun_densities_def np_interp_def s interp_at_def np_clip_def bind_err_def x q
        del: np_maximum.simps)
  moreover have "\<exists>r. np_maximum (Fin (Re y1)) (Fin (1/10^9)) = Fin r"
    by (cases "Re y1 \<le> 1/10^9") (simp_all only: np_maximum.simps np_le.simps if_True if_False
        npfloat.inject simp_thms)
  ultimately have "\<exists>r. opt_fun_densities est2 [Cx y0, Cx y1] = Inr [Fin r]"
    by (metis (no_types))
  then show ?thesis
    unfolding p_def[symmetric] by (simp add: densities_def cf f bind_err_def)
qed

section \<open>The formulas, the floor and the value of the objective\<close>






text \<open>
  C3, amended. For each of the four models, a parameter set of the model and an instance
  with a grid and a nonzero \<open>dt\<close>, the density evaluation either raises
  \<^verbatim>\<open>ZeroDivisionError\<close> or \<^verbatim>\<open>OverflowError\<close>, which it does exactly when the
  characteristic function raises it at \<open>-i\<close>, or returns one value for each observed
  return. The value is the
  clip of the value \<open>vs[i]\<close> that the interpolation gives at the return: \<open>NaN\<close> when
  \<open>vs[i]\<close> is \<open>NaN\<close>, the floor \<open>1e-9\<close> when \<open>vs[i]\<close> is at most the floor, minus
  infinity included, and \<open>vs[i]\<close> otherwise. So each returned density is at least
  \<open>1e-9\<close> or is \<open>NaN\<close>.
\<close>

theorem C3_density_floor:
  assumes "grid_ok self" and "get_dt cls (inst_dt self) \<noteq> 0"
    and "lower model \<in> {''gbm'', ''vg'', ''cgmy'', ''t''}" and "param_set model ps"
  shows "\<exists>cfXh. get_cfXh model = Some cfXh \<and>
    (case call_cfXh lib (get_dt cls (inst_dt self)) cfXh (valuesdict ps) PyScalar (- \<i>) of
       Inl e \<Rightarrow> (e = ZeroDivisionError \<or> e = OverflowError)
           \<and> densities lib cls self (valuesdict ps) model = Inl e
     | Inr c \<Rightarrow> \<exists>omega cf densities_fft vs ds.
           opt_fun_cf lib cls self (valuesdict ps) model = Inr (omega, cf)
         \<and> opt_fun_densities_fft cls self cf = Inr densities_fft
         \<and> np_interp (data_returns self) (self_x (grid self)) (map np_real densities_fft) = Inr vs
         \<and> densities lib cls self (valuesdict ps) model = Inr ds
         \<and> length vs = length (data_returns self)
         \<and> length ds = length (data_returns self)
         \<and> (\<forall>i < length ds. ds ! i =
               (if vs ! i = NaN then NaN
                else if np_le (vs ! i) (Fin (1/10^9)) then Fin (1/10^9)
                else vs ! i))
         \<and> (\<forall>d \<in> set ds. d = NaN \<or> np_le (Fin (1/10^9)) d))"
proof -
  from densities_cases[OF assms, of lib] obtain cfXh where
    s: "get_cfXh model = Some cfXh" and
    k: "case call_cfXh lib (get_dt cls (inst_dt self)) cfXh (valuesdict ps) PyScalar (- \<i>) of
       Inl e \<Rightarrow> (e = ZeroDivisionError \<or> e = OverflowError)
           \<and> densities lib cls self (valuesdict ps) model = Inl e
     | Inr c \<Rightarrow> \<exists>omega cf densities_fft vs.
           opt_fun_cf lib cls self (valuesdict ps) model = Inr (omega, cf)
         \<and> opt_fun_densities_fft cls self cf = Inr densities_fft
         \<and> np_interp (data_returns self) (self_x (grid self)) (map np_real densities_fft) = Inr vs
         \<and> length vs = length (data_returns self)
         \<and> densities lib cls self (valuesdict ps) model = Inr (np_clip vs (1/10^9))"
    by blast
  show ?thesis
  proof (cases "call_cfXh lib (get_dt cls (inst_dt self)) cfXh (valuesdict ps) PyScalar (- \<i>)")
    case (Inl e)
    with k s show ?thesis by simp
  next
    case (Inr c)
    with k obtain omega cf densities_fft vs where
      a: "opt_fun_cf lib cls self (valuesdict ps) model = Inr (omega, cf)"
        "opt_fun_densities_fft cls self cf = Inr densities_fft"
        "np_interp (data_returns self) (self_x (grid self)) (map np_real densities_fft) = Inr vs"
        "length vs = length (data_returns self)"
        "densities lib cls self (valuesdict ps) model = Inr (np_clip vs (1/10^9))"
      by auto
    define ds where "ds = np_clip vs (1/10^9)"
    have l: "length ds = length (data_returns self)"
      by (simp add: ds_def np_clip_def a(4))
    have i: "\<forall>i < length ds. ds ! i =
               (if vs ! i = NaN then NaN
                else if np_le (vs ! i) (Fin (1/10^9)) then Fin (1/10^9)
                else vs ! i)"
      by (simp add: ds_def np_clip_def np_maximum_floor)
    have f: "\<forall>d \<in> set ds. d = NaN \<or> np_le (Fin (1/10^9)) d"
      using np_maximum_above by (auto simp: ds_def np_clip_def)
    have "\<exists>omega cf densities_fft vs ds.
           opt_fun_cf lib cls self (valuesdict ps) model = Inr (omega, cf)
         \<and> opt_fun_densities_fft cls self cf = Inr densities_fft
         \<and> np_interp (data_returns self) (self_x (grid self)) (map np_real densities_fft) = Inr vs
         \<and> densities lib cls self (valuesdict ps) model = Inr ds
         \<and> length vs = length (data_returns self)
         \<and> length ds = length (data_returns self)
         \<and> (\<forall>i < length ds. ds ! i =
               (if vs ! i = NaN then NaN
                else if np_le (vs ! i) (Fin (1/10^9)) then Fin (1/10^9)
                else vs ! i))
         \<and> (\<forall>d \<in> set ds. d = NaN \<or> np_le (Fin (1/10^9)) d)"
      using a(1-4) a(5)[folded ds_def] l i f by blast
    with s Inr show ?thesis by simp
  qed
qed

theorem C3_density_floor_witness:
  "grid_ok est2 \<and> get_dt Estimator_class (inst_dt est2) \<noteq> 0
   \<and> lower ''gbm'' \<in> {''gbm'', ''vg'', ''cgmy'', ''t''}
   \<and> param_set ''gbm'' (fst (get_init_estim_params est2 ''gbm''))
   \<and> (\<forall>lib. \<exists>r. densities lib Estimator_class est2
                    (valuesdict (fst (get_init_estim_params est2 ''gbm''))) ''gbm'' = Inr [Fin r]
                \<and> 1/10^9 \<le> r)"
proof -
  define ps where "ps = fst (get_init_estim_params est2 ''gbm'')"
  have d: "get_dt Estimator_class (inst_dt est2) \<noteq> 0"
    by (simp add: dt_est2)
  have g: "get_cfXh ''gbm'' = Some CF_gbm"
    by (simp add: get_cfXh_def lower_def lower_char_def)
  have k: "\<exists>c. call_cfXh lib (get_dt Estimator_class (inst_dt est2)) CF_gbm (valuesdict ps)
      PyScalar (- \<i>) = Inr c" for lib
  proof -
    have v: "valuesdict ps = [(''mu'', 1/100), (''sigma'', 1/10)]"
      by (simp add: ps_def init_params_gbm valuesdict_def getval_def par_def)
    have "((1::real)/10) ^ 2 \<le> 1"
      by (simp add: power2_eq_square)
    then have "\<not> max_double < (1/10) ^ 2"
      using max_double_ge_one by linarith
    then show ?thesis
      by (simp add: cfXh_gbm_cases[OF v])
  qed
  have "\<exists>r. densities lib Estimator_class est2 (valuesdict ps) ''gbm'' = Inr [Fin r]
      \<and> 1/10^9 \<le> r" for lib
  proof -
    from k[of lib] obtain c where
      c: "call_cfXh lib (get_dt Estimator_class (inst_dt est2)) CF_gbm (valuesdict ps)
      PyScalar (- \<i>) = Inr c" ..
    from densities_est2_gbm[of lib] obtain r where
      r: "densities lib Estimator_class est2 (valuesdict ps) ''gbm'' = Inr [Fin r]"
      unfolding ps_def ..
    from C3_density_floor [OF grid_ok_est2 d lower_gbm param_set_init_gbm[folded ps_def], of lib]
    obtain ds where
      "densities lib Estimator_class est2 (valuesdict ps) ''gbm'' = Inr ds"
      "\<forall>d \<in> set ds. d = NaN \<or> np_le (Fin (1/10^9)) d"
      unfolding g option.inject ex_simps simp_thms c sum.case by auto
    with r have "1/10^9 \<le> r"
      by simp
    with r show ?thesis by blast
  qed
  then show ?thesis
    using grid_ok_est2 d lower_gbm param_set_init_gbm unfolding ps_def by blast
qed

text \<open>
  C3 as stated fails on the instance of two grid points when the t model is evaluated on
  it as constructed: the density at the observed return is \<open>NaN\<close>, which is not at least
  \<open>1e-9\<close>.
\<close>

theorem C3_nan_density_counterexample:
  "init Estimator_class [Some (Fin 0)] (Some 2) None None = Inr est2
   \<and> param_set ''t'' params_t
   \<and> (\<forall>lib. densities lib Estimator_class est2 (valuesdict params_t) ''t'' = Inr [NaN])
   \<and> \<not> np_le (Fin (1/10^9)) NaN"
  by (simp add: est2_init param_set_params_t densities_est2_t)

text \<open>
  C4, amended. Under the same conditions the objective either raises
  \<^verbatim>\<open>ZeroDivisionError\<close> or \<^verbatim>\<open>OverflowError\<close>, exactly when the characteristic
  function raises it at \<open>-i\<close>, or returns the negative sum of the natural logarithms of the floored densities. The
  sum takes every density: a \<open>NaN\<close> density is neither left out nor clamped, and makes
  the returned value \<open>NaN\<close>. The returned value is a finite real when every density is
  finite.
\<close>

theorem C4_objective_value:
  assumes "grid_ok self" and "get_dt cls (inst_dt self) \<noteq> 0"
    and "lower model \<in> {''gbm'', ''vg'', ''cgmy'', ''t''}" and "param_set model ps"
  shows "\<exists>cfXh. get_cfXh model = Some cfXh \<and>
    (case call_cfXh lib (get_dt cls (inst_dt self)) cfXh (valuesdict ps) PyScalar (- \<i>) of
       Inl e \<Rightarrow> (e = ZeroDivisionError \<or> e = OverflowError)
           \<and> opt_fun lib cls self ps model = Inl e
     | Inr c \<Rightarrow> \<exists>ds.
           densities lib cls self (valuesdict ps) model = Inr ds
         \<and> opt_fun lib cls self ps model = Inr (np_neg (np_sum (map np_log ds)))
         \<and> ((\<forall>d \<in> set ds. isfinite d) \<longrightarrow> isfinite (np_neg (np_sum (map np_log ds))))
         \<and> (NaN \<in> set ds \<longrightarrow> np_neg (np_sum (map np_log ds)) = NaN))"
proof -
  from densities_cases[OF assms, of lib] obtain cfXh where
    s: "get_cfXh model = Some cfXh" and
    k: "case call_cfXh lib (get_dt cls (inst_dt self)) cfXh (valuesdict ps) PyScalar (- \<i>) of
       Inl e \<Rightarrow> (e = ZeroDivisionError \<or> e = OverflowError)
           \<and> densities lib cls self (valuesdict ps) model = Inl e
     | Inr c \<Rightarrow> \<exists>omega cf densities_fft vs.
           opt_fun_cf lib cls self (valuesdict ps) model = Inr (omega, cf)
         \<and> opt_fun_densities_fft cls self cf = Inr densities_fft
         \<and> np_interp (data_returns self) (self_x (grid self)) (map np_real densities_fft) = Inr vs
         \<and> length vs = length (data_returns self)
         \<and> densities lib cls self (valuesdict ps) model = Inr (np_clip vs (1/10^9))"
    by blast
  show ?thesis
  proof (cases "call_cfXh lib (get_dt cls (inst_dt self)) cfXh (valuesdict ps) PyScalar (- \<i>)")
    case (Inl e)
    with k have e: "e = ZeroDivisionError \<or> e = OverflowError"
      and "densities lib cls self (valuesdict ps) model = Inl e"
      by simp_all
    then have "opt_fun lib cls self ps model = Inl e"
      by (simp add: opt_fun_def bind_err_def)
    with s Inl e show ?thesis by simp
  next
    case (Inr c)
    with k obtain vs where
      a: "densities lib cls self (valuesdict ps) model = Inr (np_clip vs (1/10^9))"
      by auto
    define ds where "ds = np_clip vs (1/10^9)"
    have o: "opt_fun lib cls self ps model = Inr (np_neg (np_sum (map np_log ds)))"
      by (simp add: opt_fun_def a ds_def bind_err_def)
    have v: "\<forall>d \<in> set ds. d = NaN \<or> np_le (Fin (1/10^9)) d"
      using np_maximum_above by (auto simp: ds_def np_clip_def)
    have fin: "isfinite (np_neg (np_sum (map np_log ds)))" if "\<forall>d \<in> set ds. isfinite d"
    proof -
      have "isfinite (np_log d)" if "d \<in> set ds" for d
      proof (rule np_log_above)
        show "isfinite d" using \<open>\<forall>d \<in> set ds. isfinite d\<close> that by blast
        then show "np_le (Fin (1/10^9)) d" using v that by auto
        show "(0::real) < 1/10^9" by simp
      qed
      then have "\<forall>l \<in> set (map np_log ds). isfinite l"
        by auto
      from foldl_np_add_finite[OF this, of 0] obtain s where "np_sum (map np_log ds) = Fin s"
        by (cases "np_sum (map np_log ds)") (simp_all add: np_sum_def)
      then show ?thesis by simp
    qed
    have nan: "np_neg (np_sum (map np_log ds)) = NaN" if "NaN \<in> set ds"
    proof -
      have "NaN \<in> set (map np_log ds)"
        using that by (force simp: image_iff)
      then show ?thesis
        by (simp only: np_sum_def foldl_np_add_has_NaN np_neg.simps)
    qed
    have "\<exists>ds. densities lib cls self (valuesdict ps) model = Inr ds
         \<and> opt_fun lib cls self ps model = Inr (np_neg (np_sum (map np_log ds)))
         \<and> ((\<forall>d \<in> set ds. isfinite d) \<longrightarrow> isfinite (np_neg (np_sum (map np_log ds))))
         \<and> (NaN \<in> set ds \<longrightarrow> np_neg (np_sum (map np_log ds)) = NaN)"
      using a[folded ds_def] o fin nan by blast
    with s Inr show ?thesis by simp
  qed
qed

theorem C4_objective_value_witness:
  "grid_ok est2 \<and> get_dt Estimator_class (inst_dt est2) \<noteq> 0
   \<and> lower ''gbm'' \<in> {''gbm'', ''vg'', ''cgmy'', ''t''}
   \<and> param_set ''gbm'' (fst (get_init_estim_params est2 ''gbm''))
   \<and> (\<forall>lib. \<exists>r. densities lib Estimator_class est2
                    (valuesdict (fst (get_init_estim_params est2 ''gbm''))) ''gbm'' = Inr [Fin r]
                \<and> opt_fun lib Estimator_class est2 (fst (get_init_estim_params est2 ''gbm''))
                      ''gbm'' = Inr (np_neg (np_sum [np_log (Fin r)]))
                \<and> isfinite (np_neg (np_sum [np_log (Fin r)])))"
proof -
  define ps where "ps = fst (get_init_estim_params est2 ''gbm'')"
  have d: "get_dt Estimator_class (inst_dt est2) \<noteq> 0"
    by (simp add: dt_est2)
  have g: "get_cfXh ''gbm'' = Some CF_gbm"
    by (simp add: get_cfXh_def lower_def lower_char_def)
  have k: "\<exists>c. call_cfXh lib (get_dt Estimator_class (inst_dt est2)) CF_gbm (valuesdict ps)
      PyScalar (- \<i>) = Inr c" for lib
  proof -
    have v: "valuesdict ps = [(''mu'', 1/100), (''sigma'', 1/10)]"
      by (simp add: ps_def init_params_gbm valuesdict_def getval_def par_def)
    have "((1::real)/10) ^ 2 \<le> 1"
      by (simp add: power2_eq_square)
    then have "\<not> max_double < (1/10) ^ 2"
      using max_double_ge_one by linarith
    then show ?thesis
      by (simp add: cfXh_gbm_cases[OF v])
  qed
  have "\<exists>r. densities lib Estimator_class est2 (valuesdict ps) ''gbm'' = Inr [Fin r]
      \<and> opt_fun lib Estimator_class est2 ps ''gbm'' = Inr (np_neg (np_sum [np_log (Fin r)]))
      \<and> isfinite (np_neg (np_sum [np_log (Fin r)]))" for lib
  proof -
    from k[of lib] obtain c where
      c: "call_cfXh lib (get_dt Estimator_class (inst_dt est2)) CF_gbm (valuesdict ps)
      PyScalar (- \<i>) = Inr c" ..
    from densities_est2_gbm[of lib] obtain r where
      r: "densities lib Estimator_class est2 (valuesdict ps) ''gbm'' = Inr [Fin r]"
      unfolding ps_def ..
    from C4_objective_value [OF grid_ok_est2 d lower_gbm param_set_init_gbm[folded ps_def], of lib]
    obtain ds where
      ds: "densities lib Estimator_class est2 (valuesdict ps) ''gbm'' = Inr ds"
      "opt_fun lib Estimator_class est2 ps ''gbm'' = Inr (np_neg (np_sum (map np_log ds)))"
      "(\<forall>d \<in> set ds. isfinite d) \<longrightarrow> isfinite (np_neg (np_sum (map np_log ds)))"
      unfolding g option.inject ex_simps simp_thms c sum.case by auto
    have e: "ds = [Fin r]"
      using ds(1) unfolding r by (simp only: sum.inject)
    have "opt_fun lib Estimator_class est2 ps ''gbm'' = Inr (np_neg (np_sum [np_log (Fin r)]))"
      using ds(2) unfolding e by (simp only: list.map)
    moreover have "isfinite (np_neg (np_sum [np_log (Fin r)]))"
      using ds(3) unfolding e by (simp only: list.map list.set ball_simps isfinite.simps simp_thms)
    ultimately show ?thesis
      using r by blast
  qed
  then show ?thesis
    using grid_ok_est2 d lower_gbm param_set_init_gbm unfolding ps_def by blast
qed

text \<open>
  C4 as stated fails on the instance of two grid points with the t model evaluated on it
  as constructed: the objective returns \<open>NaN\<close>, which is not a finite real.
\<close>

theorem C4_nan_objective_counterexample:
  "param_set ''t'' params_t
   \<and> (\<forall>lib. opt_fun lib Estimator_class est2 params_t ''t'' = Inr NaN)
   \<and> \<not> isfinite NaN"
  by (simp add: param_set_params_t opt_fun_def densities_est2_t bind_err_def np_sum_def)

section \<open>The frame of construction and selection\<close>

lemma Estimator_new_eq:
  assumes "init (class_vars s) data n eta dt = Inr e"
  shows "Estimator_new s data n eta dt =
    Inr (next_object s,
         s\<lparr>arrays := (arrays s)(next_array s \<mapsto> self_u (grid e),
                    Suc (next_array s) \<mapsto> self_x (grid e),
                    Suc (Suc (next_array s)) \<mapsto> self_w (grid e)),
           next_array := Suc (Suc (Suc (next_array s))),
           objects := (objects s)(next_object s \<mapsto>
             \<lparr>obj_data_returns = data_returns e, obj_N = inst_N e, obj_eta = inst_eta e,
              obj_dt = inst_dt e, obj_b = self_b (grid e), obj_lbda = self_lbda (grid e),
              obj_u = next_array s, obj_x = Suc (next_array s),
              obj_w = Suc (Suc (next_array s))\<rparr>),
           next_object := Suc (next_object s)\<rparr>)"
  by (simp add: Estimator_new_def assms bind_err_def new_array_def Let_def)

lemma Estimator_new_frame:
  assumes "wf_store s" and "Estimator_new s data n eta dt = Inr (i, s')"
  shows "class_vars s' = class_vars s \<and> objects s i = None
    \<and> (\<exists>e. init (class_vars s) data n eta dt = Inr e \<and> view s' i = Some e)
    \<and> (\<forall>a. arrays s a \<noteq> None \<longrightarrow> arrays s' a = arrays s a)
    \<and> (\<forall>j. j \<noteq> i \<longrightarrow> objects s' j = objects s j \<and> view s' j = view s j)
    \<and> wf_store s'"
proof -
  from assms(2) obtain e where e: "init (class_vars s) data n eta dt = Inr e"
    by (auto simp: Estimator_new_def bind_err_def split: sum.splits)
  define k where "k = next_array s"
  have s': "s' = s\<lparr>arrays := (arrays s)(k \<mapsto> self_u (grid e), Suc k \<mapsto> self_x (grid e),
                                   Suc (Suc k) \<mapsto> self_w (grid e)),
                next_array := Suc (Suc (Suc k)),
                objects := (objects s)(next_object s \<mapsto>
                 \<lparr>obj_data_returns = data_returns e, obj_N = inst_N e, obj_eta = inst_eta e,
                  obj_dt = inst_dt e, obj_b = self_b (grid e), obj_lbda = self_lbda (grid e),
                  obj_u = k, obj_x = Suc k, obj_w = Suc (Suc k)\<rparr>),
                next_object := Suc (next_object s)\<rparr>"
    and i: "i = next_object s"
    using assms(2) unfolding Estimator_new_eq[OF e] k_def by auto
  have free: "arrays s a = None" if "k \<le> a" for a
    using assms(1) that by (simp add: wf_store_def k_def)
  have refs: "obj_u ob < k \<and> obj_x ob < k \<and> obj_w ob < k" if "objects s j = Some ob" for j ob
    using assms(1) that by (auto simp: wf_store_def k_def)
  have 1: "class_vars s' = class_vars s" by (simp add: s')
  have 2: "objects s i = None" using assms(1) by (simp add: wf_store_def i)
  have 3: "view s' i = Some e" by (simp add: view_def s' i)
  have 4: "arrays s' a = arrays s a" if "arrays s a \<noteq> None" for a
  proof -
    have "a < k" using free[of a] that by (cases "k \<le> a") auto
    then show ?thesis by (simp add: s')
  qed
  have 5: "objects s' j = objects s j \<and> view s' j = view s j" if "j \<noteq> i" for j
  proof (cases "objects s j")
    case None
    then show ?thesis using that by (simp add: s' i view_def)
  next
    case (Some ob)
    from refs[OF Some] show ?thesis
      using that Some by (simp add: s' i view_def)
  qed
  have 6: "wf_store s'"
    using assms(1) unfolding wf_store_def k_def[symmetric]
    by (auto simp: s' k_def less_Suc_eq dest!: refs[unfolded k_def])
  show ?thesis using 1 2 3 4 5 6 e by blast
qed


lemma get_init_estim_params_other:
  assumes "lower model \<noteq> ''t''"
  shows "snd (get_init_estim_params e model) = e"
  using assms by (simp add: get_init_estim_params_def)

lemma get_init_estim_params_t:
  assumes "lower model = ''t''"
  shows "snd (get_init_estim_params e model) = e\<lparr>grid := (grid e)\<lparr>self_u := clip_u (self_u (grid e))\<rparr>\<rparr>"
  using assms by (simp add: get_init_estim_params_def)

lemma select_params_Some:
  assumes "view s i = Some e"
  shows "\<exists>ps s'. select_params s i model = Some (ps, s')"
proof -
  from assms obtain ob where "objects s i = Some ob"
    by (auto simp: view_def split: option.splits)
  then show ?thesis
    using assms by (simp add: select_params_def new_array_def Let_def split: prod.splits)
qed

lemma select_params_frame:
  assumes "wf_store s" and "select_params s i model = Some (ps, s')"
  shows "class_vars s' = class_vars s
    \<and> (\<exists>e. view s i = Some e \<and> ps = fst (get_init_estim_params e model)
          \<and> view s' i = Some (snd (get_init_estim_params e model)))
    \<and> (\<forall>a. arrays s a \<noteq> None \<longrightarrow> arrays s' a = arrays s a)
    \<and> (\<forall>j. j \<noteq> i \<longrightarrow> objects s' j = objects s j \<and> view s' j = view s j)
    \<and> wf_store s'"
proof -
  from assms(2) obtain ob e where ob: "objects s i = Some ob" and e: "view s i = Some e"
    by (auto simp: select_params_def split: option.splits)
  have ps: "ps = fst (get_init_estim_params e model)"
    using assms(2) by (auto simp: select_params_def ob e Let_def split: prod.splits if_splits)
  show ?thesis
  proof (cases "lower model = ''t''")
    case False
    then have "s' = s"
      using assms(2) by (auto simp: select_params_def ob e Let_def split: prod.splits)
    then show ?thesis
      using assms(1) e ps get_init_estim_params_other[OF False, of e] by simp
  next
    case True
    define k where "k = next_array s"
    define v where "v = clip_u (self_u (grid e))"
    have s': "s' = s\<lparr>arrays := (arrays s)(k \<mapsto> v), next_array := Suc k,
                    objects := (objects s)(i \<mapsto> ob\<lparr>obj_u := k\<rparr>)\<rparr>"
      using assms(2) True
      by (auto simp: select_params_def ob e Let_def new_array_def k_def v_def
          get_init_estim_params_def split: prod.splits)
    have free: "arrays s a = None" if "k \<le> a" for a
      using assms(1) that by (simp add: wf_store_def k_def)
    have refs: "obj_u ob' < k \<and> obj_x ob' < k \<and> obj_w ob' < k" if "objects s j = Some ob'" for j ob'
      using assms(1) that by (auto simp: wf_store_def k_def)
    have 1: "class_vars s' = class_vars s" by (simp add: s')
    have 3: "view s' i = Some (snd (get_init_estim_params e model))"
      using e refs[OF ob] unfolding get_init_estim_params_t[OF True] v_def[symmetric]
      by (auto simp: view_def s' ob split: option.splits)
    have 4: "arrays s' a = arrays s a" if "arrays s a \<noteq> None" for a
    proof -
      have "a < k" using free[of a] that by (cases "k \<le> a") auto
      then show ?thesis by (simp add: s')
    qed
    have 5: "objects s' j = objects s j \<and> view s' j = view s j" if "j \<noteq> i" for j
    proof (cases "objects s j")
      case None
      then show ?thesis using that by (simp add: s' view_def)
    next
      case (Some ob')
      from refs[OF Some] show ?thesis
        using that Some by (simp add: s' view_def)
    qed
    have "i < next_object s"
      using assms(1) ob by (cases "next_object s \<le> i") (auto simp: wf_store_def)
    then have 6: "wf_store s'"
      using assms(1) refs[OF ob] unfolding wf_store_def k_def[symmetric]
      by (auto simp: s' less_Suc_eq dest!: refs)
    show ?thesis using 1 3 4 5 6 e ps by blast
  qed
qed

lemma init_Inr:
  assumes "0 < get_N cls n" "get_eta cls eta \<noteq> 0"
  shows "\<exists>e. init cls data n eta dt = Inr e"
  using assms by (simp add: init_def make_fft_params_Inr bind_err_def)

lemma wf_store0: "wf_store store0"
  by (simp add: wf_store_def store0_def)

text \<open>
  C10. In a well-formed store, the construction of an instance (with or without explicit
  \<open>N\<close>, \<open>eta\<close>, \<open>dt\<close>) and the selection of the parameters of a model on an instance (the
  clamp of the t model included) leave the class attributes, every array that existed and
  every other instance as they were, and the store stays well formed. The new instance is
  the one the constructor computes, and the selection changes its instance the way
  \<^verbatim>\<open>get_init_estim_params\<close> does.
\<close>

theorem C10_frame:
  assumes "wf_store s"
  shows "(Estimator_new s data n eta dt = Inr (i, s') \<longrightarrow>
            class_vars s' = class_vars s \<and> objects s i = None
          \<and> (\<exists>e. init (class_vars s) data n eta dt = Inr e \<and> view s' i = Some e)
          \<and> (\<forall>a. arrays s a \<noteq> None \<longrightarrow> arrays s' a = arrays s a)
          \<and> (\<forall>j. j \<noteq> i \<longrightarrow> objects s' j = objects s j \<and> view s' j = view s j)
          \<and> wf_store s')
       \<and> (select_params s k model = Some (ps, s'') \<longrightarrow>
            class_vars s'' = class_vars s
          \<and> (\<exists>e. view s k = Some e \<and> ps = fst (get_init_estim_params e model)
                \<and> view s'' k = Some (snd (get_init_estim_params e model)))
          \<and> (\<forall>a. arrays s a \<noteq> None \<longrightarrow> arrays s'' a = arrays s a)
          \<and> (\<forall>j. j \<noteq> k \<longrightarrow> objects s'' j = objects s j \<and> view s'' j = view s j)
          \<and> wf_store s'')"
  using Estimator_new_frame[OF assms] select_params_frame[OF assms] by blast

theorem C10_frame_witness:
  "wf_store store0
   \<and> (\<exists>a s1 b s2 ps s3.
        Estimator_new store0 [Some (Fin 0)] (Some 2) None None = Inr (a, s1)
        \<and> Estimator_new s1 [] (Some 4) (Some 1) (Some 1) = Inr (b, s2)
        \<and> select_params s2 b ''t'' = Some (ps, s3)
        \<and> a \<noteq> b \<and> view s3 a = Some est2 \<and> class_vars s3 = Estimator_class)"
proof -
  have c0: "class_vars store0 = Estimator_class" by (simp add: store0_def)
  from Estimator_new_eq[of store0, unfolded c0, OF est2_init] obtain a s1 where
    n1: "Estimator_new store0 [Some (Fin 0)] (Some 2) None None = Inr (a, s1)" by blast
  from C10_frame [OF wf_store0, where data = "[Some (Fin 0)]" and n = "Some 2" and eta = None
      and dt = None and i = a and s' = s1 and k = a and model = "''t''" and ps = "[]"
      and s'' = store0] n1 est2_init
  have 1: "class_vars s1 = Estimator_class" "view s1 a = Some est2" "wf_store s1"
    by (auto simp: c0)
  have "\<exists>e. init (class_vars s1) [] (Some 4) (Some 1) (Some 1) = Inr e"
    by (rule init_Inr) (simp_all add: get_N_def get_eta_def)
  then obtain e4 where "init (class_vars s1) [] (Some 4) (Some 1) (Some 1) = Inr e4" ..
  from Estimator_new_eq[OF this] obtain b s2 where
    n2: "Estimator_new s1 [] (Some 4) (Some 1) (Some 1) = Inr (b, s2)" by blast
  from C10_frame [OF 1(3), where data = "[]" and n = "Some 4" and eta = "Some 1"
      and dt = "Some 1" and i = b and s' = s2 and k = b and model = "''t''" and ps = "[]"
      and s'' = store0] n2
  have 2: "class_vars s2 = class_vars s1" "objects s1 b = None" "\<exists>e. view s2 b = Some e"
    "\<forall>j. j \<noteq> b \<longrightarrow> view s2 j = view s1 j" "wf_store s2"
    by auto
  have ab: "a \<noteq> b"
    using 1(2) 2(2) by (auto simp: view_def)
  from 2(3) select_params_Some obtain ps s3 where
    n3: "select_params s2 b ''t'' = Some (ps, s3)" by blast
  from C10_frame [OF 2(5), where data = "[]" and n = None and eta = None
      and dt = None and i = b and s' = store0 and k = b and model = "''t''" and ps = ps
      and s'' = s3] n3
  have 3: "class_vars s3 = class_vars s2" "\<forall>j. j \<noteq> b \<longrightarrow> view s3 j = view s2 j"
    by auto
  have "view s3 a = Some est2" "class_vars s3 = Estimator_class"
    using ab 1 2 3 by auto
  with n1 n2 n3 ab wf_store0 show ?thesis by blast
qed

end
